theory Spec2Isabelle
  imports Complex_Main "HOL-Library.Log_Nat"
begin

section \<open>Data model\<close>

text \<open>
  The tables the API queries (\<^verbatim>\<open>authors\<close>, \<^verbatim>\<open>posts\<close>, \<^verbatim>\<open>engagements\<close>) are lists of
  rows, in storage order. A timestamp is a number of microseconds counted from
  0001-01-01T00:00:00, the origin of Python's \<^verbatim>\<open>datetime\<close>; the columns the queries read are
  taken to be NOT NULL, except \<^verbatim>\<open>publish_timestamp\<close>, whose NULL the summary query tests.
  The engagement type is the text stored in the column, since the queries compare it with
  string literals. Stored timestamps are taken to lie in the years 1 to 9999, the dates the
  database driver can hand to Python.
\<close>

record author_row =
  a_author_id :: int
  a_name :: string

record post_row =
  p_post_id :: int
  p_author_id :: int
  p_title :: string
  p_publish_timestamp :: "int option"

record engagement_row =
  e_engagement_id :: int
  e_post_id :: int
  e_type :: string
  e_engaged_timestamp :: int

record database =
  authors :: "author_row list"
  posts :: "post_row list"
  engagements :: "engagement_row list"

subsection \<open>Exceptions\<close>

text \<open>
  \<^verbatim>\<open>HTTPException(status_code, detail)\<close> is FastAPI's exception, a subclass of Python's
  \<^verbatim>\<open>Exception\<close>; \<^verbatim>\<open>OverflowError\<close> is what \<^verbatim>\<open>timedelta(days=...)\<close> and the subtraction
  of a \<^verbatim>\<open>timedelta\<close> from a \<^verbatim>\<open>datetime\<close> raise out of range. A handler that ends with
  \<^verbatim>\<open>HTTPException c d\<close> answers with HTTP status \<open>c\<close>. The database itself is taken to
  answer every query.
\<close>

datatype exn = HTTPException nat string | OverflowError string

fun str_nat :: "nat \<Rightarrow> string" where
  "str_nat n =
     (if n < 10 then [char_of (48 + n)]
      else str_nat (n div 10) @ [char_of (48 + n mod 10)])"

declare str_nat.simps [simp del]

definition str_int :: "int \<Rightarrow> string" where
  "str_int i = (if i < 0 then ''-'' @ str_nat (nat (- i)) else str_nat (nat i))"

text \<open>\<^verbatim>\<open>str(e)\<close>: Starlette prints an \<^verbatim>\<open>HTTPException\<close> as \<^verbatim>\<open>"{status_code}: {detail}"\<close>.\<close>

fun str_exn :: "exn \<Rightarrow> string" where
  "str_exn (HTTPException c d) = str_nat c @ '': '' @ d"
| "str_exn (OverflowError m) = m"

subsection \<open>Dates and times\<close>

definition MICROS_PER_DAY :: int where
  "MICROS_PER_DAY = 86400000000"

text \<open>\<^verbatim>\<open>datetime.max\<close>, 9999-12-31T23:59:59.999999, in microseconds from \<^verbatim>\<open>datetime.min\<close>.\<close>

definition DATETIME_MAX :: int where
  "DATETIME_MAX = 3652059 * 86400000000 - 1"

text \<open>
  \<^verbatim>\<open>timedelta(days=d)\<close>, in microseconds: at most 999999999 days either way. The texts of
  the two \<^verbatim>\<open>OverflowError\<close>s are CPython's usual ones; nothing below depends on them.
\<close>

definition timedelta_days :: "int \<Rightarrow> exn + int" where
  "timedelta_days d =
     (if \<bar>d\<bar> > 999999999
      then Inl (OverflowError (''days='' @ str_int d @ ''; must have magnitude <= 999999999''))
      else Inr (d * MICROS_PER_DAY))"

text \<open>\<^verbatim>\<open>t - td\<close> for a \<^verbatim>\<open>datetime\<close> \<open>t\<close> and a \<^verbatim>\<open>timedelta\<close> \<open>td\<close>.\<close>

definition datetime_sub :: "int \<Rightarrow> int \<Rightarrow> exn + int" where
  "datetime_sub t td =
     (let r = t - td
      in if r < 0 \<or> DATETIME_MAX < r then Inl (OverflowError ''date value out of range'')
         else Inr r)"

text \<open>SQL \<^verbatim>\<open>DATE(ts)\<close>: the calendar day of a timestamp, as a day number.\<close>

definition DATE :: "int \<Rightarrow> int" where
  "DATE ts = ts div MICROS_PER_DAY"

text \<open>\<^verbatim>\<open>DATE(engaged_timestamp)\<close> of an engagement.\<close>

abbreviation day_of :: "engagement_row \<Rightarrow> int" where
  "day_of e \<equiv> DATE (e_engaged_timestamp e)"

subsection \<open>Floating point\<close>

text \<open>
  A Python \<^verbatim>\<open>float\<close> is an IEEE 754 binary64 number; a finite one is represented here by the
  rational it stands for (so \<^verbatim>\<open>-0.0\<close> is 0). Every operation delivers the double nearest
  to the exact result, a tie going to the one with the even significand.
\<close>

text \<open>Rounding to the nearest integer, a tie going to the even one.\<close>

definition round_half_even :: "rat \<Rightarrow> int" where
  "round_half_even y =
     (let f = \<lfloor>y\<rfloor>; d = y - of_int f
      in if d < 1/2 then f else if 1/2 < d then f + 1 else if even f then f else f + 1)"

definition pow2 :: "int \<Rightarrow> rat" where
  "pow2 e = 2 powi e"

text \<open>The exponent \<open>e\<close> of \<open>x \<noteq> 0\<close>: \<open>2\<^sup>e \<le> \<bar>x\<bar> < 2\<^sup>e\<^sup>+\<^sup>1\<close>.\<close>

definition float_exponent :: "rat \<Rightarrow> int" where
  "float_exponent x =
     (let (a, b) = quotient_of \<bar>x\<bar>; e0 = bitlen a - bitlen b
      in if pow2 e0 \<le> \<bar>x\<bar> then e0 else e0 - 1)"

text \<open>
  The double nearest to \<open>x\<close>: 53 significant bits, and below \<open>2\<^sup>-\<^sup>1\<^sup>0\<^sup>2\<^sup>2\<close> the fixed spacing
  \<open>2\<^sup>-\<^sup>1\<^sup>0\<^sup>7\<^sup>4\<close> of the subnormal numbers. Overflow, from \<open>2\<^sup>1\<^sup>0\<^sup>2\<^sup>4\<close> on, is left out:
  no table has that many rows.
\<close>

definition fl :: "rat \<Rightarrow> rat" where
  "fl x =
     (if x = 0 then 0
      else (let q = pow2 (max (float_exponent x - 52) (- 1074))
            in of_int (round_half_even (x / q)) * q))"

section \<open>Trend endpoints\<close>

text \<open>
  The response classes. \<^verbatim>\<open>date\<close> holds the day number that \<^verbatim>\<open>DATE\<close> yields (the source
  renders it with \<^verbatim>\<open>str\<close>); \<^verbatim>\<open>change_percent\<close> is the value of a Python float.
\<close>

record EngagementTrend =
  date :: int
  views :: int
  likes :: int
  comments :: int
  shares :: int
  total :: int

record PostTrendsResponse =
  post_id :: int
  post_title :: string
  current_period :: "EngagementTrend list"
  previous_period :: "EngagementTrend list"
  change_percent :: rat

record AuthorTrendsResponse =
  author_id :: int
  author_name :: string
  a_current_period :: "EngagementTrend list"
  a_previous_period :: "EngagementTrend list"
  a_change_percent :: rat

subsection \<open>The aggregate query\<close>

text \<open>\<^verbatim>\<open>COUNT(*) FILTER (WHERE type = ty)\<close> over the rows of one group.\<close>

definition count_filter :: "string \<Rightarrow> engagement_row list \<Rightarrow> int" where
  "count_filter ty rows = int (length (filter (\<lambda>e. e_type e = ty) rows))"

text \<open>The select list, evaluated on the group of day \<open>d\<close>.\<close>

definition select_row :: "int \<Rightarrow> engagement_row list \<Rightarrow> EngagementTrend" where
  "select_row d rows =
     \<lparr>date = d,
      views = count_filter ''view'' rows,
      likes = count_filter ''like'' rows,
      comments = count_filter ''comment'' rows,
      shares = count_filter ''share'' rows,
      total = int (length rows)\<rparr>"

text \<open>
  \<^verbatim>\<open>GROUP BY DATE(engaged_timestamp)\<close>: every row joins the group of its day, and opens a
  new group when its day has none yet.
\<close>

fun add_to_group ::
  "engagement_row \<Rightarrow> (int \<times> engagement_row list) list \<Rightarrow> (int \<times> engagement_row list) list"
where
  "add_to_group e [] = [(DATE (e_engaged_timestamp e), [e])]"
| "add_to_group e ((d, es) # gs) =
     (if d = DATE (e_engaged_timestamp e) then (d, es @ [e]) # gs
      else (d, es) # add_to_group e gs)"

definition group_by_date :: "engagement_row list \<Rightarrow> (int \<times> engagement_row list) list" where
  "group_by_date rows = foldl (\<lambda>gs e. add_to_group e gs) [] rows"

text \<open>\<^verbatim>\<open>ORDER BY date\<close>.\<close>

definition order_by_date :: "EngagementTrend list \<Rightarrow> EngagementTrend list" where
  "order_by_date rs = sort_key date rs"

text \<open>The query of both endpoints, after its \<^verbatim>\<open>FROM ... WHERE\<close>.\<close>

definition trend_query :: "engagement_row list \<Rightarrow> EngagementTrend list" where
  "trend_query rows =
     order_by_date (map (\<lambda>(d, es). select_row d es) (group_by_date rows))"

text \<open>\<^verbatim>\<open>cursor.fetchone()\<close>.\<close>

fun fetchone :: "'a list \<Rightarrow> 'a option" where
  "fetchone [] = None"
| "fetchone (r # rs) = Some r"

text \<open>
  The comparison of the two periods:
  \<^verbatim>\<open>change_percent = 0.0; if previous_total > 0: change_percent = ((c - p) / p) * 100\<close>.
  The totals are Python ints: \<^verbatim>\<open>c - p\<close> is exact, \<^verbatim>\<open>/\<close> yields the double nearest to the
  quotient, and the product with 100 is rounded to a double again.
\<close>

definition percent_change :: "int \<Rightarrow> int \<Rightarrow> rat" where
  "percent_change current_total previous_total =
     (if previous_total > 0
      then fl (fl (of_int (current_total - previous_total) / of_int previous_total) * 100)
      else 0)"

text \<open>
  Python's \<^verbatim>\<open>round(x, 2)\<close> on a float: the value of \<open>x\<close> is rounded to the nearest multiple
  of 1/100, a tie going to the even one, and the result is the double nearest to that
  decimal.
\<close>

definition round2 :: "rat \<Rightarrow> rat" where
  "round2 x = fl (of_int (round_half_even (x * 100)) / 100)"

subsection \<open>\<^verbatim>\<open>get_post_trends\<close>\<close>

text \<open>\<^verbatim>\<open>FROM engagements WHERE post_id = %s AND engaged_timestamp >= %s\<close>.\<close>

definition post_current_rows :: "database \<Rightarrow> int \<Rightarrow> int \<Rightarrow> engagement_row list" where
  "post_current_rows db pid current_start =
     filter (\<lambda>e. e_post_id e = pid \<and> e_engaged_timestamp e \<ge> current_start)
       (engagements db)"

text \<open>
  \<^verbatim>\<open>FROM engagements WHERE post_id = %s AND engaged_timestamp >= %s AND engaged_timestamp < %s\<close>.
\<close>

definition post_previous_rows :: "database \<Rightarrow> int \<Rightarrow> int \<Rightarrow> int \<Rightarrow> engagement_row list" where
  "post_previous_rows db pid previous_start current_start =
     filter (\<lambda>e. e_post_id e = pid \<and> e_engaged_timestamp e \<ge> previous_start
                  \<and> e_engaged_timestamp e < current_start)
       (engagements db)"

definition post_current_query :: "database \<Rightarrow> int \<Rightarrow> int \<Rightarrow> EngagementTrend list" where
  "post_current_query db pid current_start =
     trend_query (post_current_rows db pid current_start)"

definition post_previous_query ::
  "database \<Rightarrow> int \<Rightarrow> int \<Rightarrow> int \<Rightarrow> EngagementTrend list" where
  "post_previous_query db pid previous_start current_start =
     trend_query (post_previous_rows db pid previous_start current_start)"

text \<open>The body of the \<^verbatim>\<open>try\<close> block; \<open>now\<close> is what \<^verbatim>\<open>datetime.now()\<close> returns.\<close>

definition get_post_trends_try ::
  "database \<Rightarrow> int \<Rightarrow> int \<Rightarrow> int \<Rightarrow> exn + PostTrendsResponse" where
  "get_post_trends_try db now pid days =
     (case fetchone (filter (\<lambda>p. p_post_id p = pid) (posts db)) of
        None \<Rightarrow> Inl (HTTPException 404 ''Post not found'')
      | Some post \<Rightarrow>
     (case timedelta_days days of Inl e \<Rightarrow> Inl e | Inr td \<Rightarrow>
     (case datetime_sub now td of Inl e \<Rightarrow> Inl e | Inr current_start \<Rightarrow>
     (let cur = post_current_query db pid current_start
      in (case datetime_sub current_start td of Inl e \<Rightarrow> Inl e | Inr previous_start \<Rightarrow>
     (let prev = post_previous_query db pid previous_start current_start;
          current_total = sum_list (map total cur);
          previous_total = sum_list (map total prev)
      in Inr \<lparr>post_id = pid,
              post_title = p_title post,
              current_period = cur,
              previous_period = prev,
              change_percent = round2 (percent_change current_total previous_total)\<rparr>))))))"

text \<open>
  The handler: \<^verbatim>\<open>except Exception as e: raise HTTPException(status_code=500, detail=str(e))\<close>
  catches whatever the \<^verbatim>\<open>try\<close> block raises.
\<close>

definition get_post_trends ::
  "database \<Rightarrow> int \<Rightarrow> int \<Rightarrow> int \<Rightarrow> exn + PostTrendsResponse" where
  "get_post_trends db now pid days =
     (case get_post_trends_try db now pid days of
        Inl e \<Rightarrow> Inl (HTTPException 500 (str_exn e))
      | Inr r \<Rightarrow> Inr r)"

subsection \<open>\<^verbatim>\<open>get_author_trends\<close>\<close>

text \<open>\<^verbatim>\<open>FROM engagements e JOIN posts p ON e.post_id = p.post_id\<close>.\<close>

definition join_posts ::
  "engagement_row list \<Rightarrow> post_row list \<Rightarrow> (engagement_row \<times> post_row) list" where
  "join_posts es ps =
     concat (map (\<lambda>e. map (Pair e) (filter (\<lambda>p. e_post_id e = p_post_id p) ps)) es)"

text \<open>The current query's \<^verbatim>\<open>WHERE p.author_id = %s AND e.engaged_timestamp >= %s\<close>.\<close>

definition author_current_rows :: "database \<Rightarrow> int \<Rightarrow> int \<Rightarrow> engagement_row list" where
  "author_current_rows db aid current_start =
     map fst
       (filter (\<lambda>(e, p). p_author_id p = aid \<and> e_engaged_timestamp e \<ge> current_start)
          (join_posts (engagements db) (posts db)))"

text \<open>The previous query's, with \<^verbatim>\<open>AND e.engaged_timestamp < %s\<close> added.\<close>

definition author_previous_rows ::
  "database \<Rightarrow> int \<Rightarrow> int \<Rightarrow> int \<Rightarrow> engagement_row list" where
  "author_previous_rows db aid previous_start current_start =
     map fst
       (filter (\<lambda>(e, p). p_author_id p = aid \<and> e_engaged_timestamp e \<ge> previous_start
                       \<and> e_engaged_timestamp e < current_start)
          (join_posts (engagements db) (posts db)))"

definition author_current_query :: "database \<Rightarrow> int \<Rightarrow> int \<Rightarrow> EngagementTrend list" where
  "author_current_query db aid current_start =
     trend_query (author_current_rows db aid current_start)"

definition author_previous_query ::
  "database \<Rightarrow> int \<Rightarrow> int \<Rightarrow> int \<Rightarrow> EngagementTrend list" where
  "author_previous_query db aid previous_start current_start =
     trend_query (author_previous_rows db aid previous_start current_start)"

definition get_author_trends_try ::
  "database \<Rightarrow> int \<Rightarrow> int \<Rightarrow> int \<Rightarrow> exn + AuthorTrendsResponse" where
  "get_author_trends_try db now aid days =
     (case fetchone (filter (\<lambda>a. a_author_id a = aid) (authors db)) of
        None \<Rightarrow> Inl (HTTPException 404 ''Author not found'')
      | Some author \<Rightarrow>
     (case timedelta_days days of Inl e \<Rightarrow> Inl e | Inr td \<Rightarrow>
     (case datetime_sub now td of Inl e \<Rightarrow> Inl e | Inr current_start \<Rightarrow>
     (let cur = author_current_query db aid current_start
      in (case datetime_sub current_start td of Inl e \<Rightarrow> Inl e | Inr previous_start \<Rightarrow>
     (let prev = author_previous_query db aid previous_start current_start;
          current_total = sum_list (map total cur);
          previous_total = sum_list (map total prev)
      in Inr \<lparr>author_id = aid,
              author_name = a_name author,
              a_current_period = cur,
              a_previous_period = prev,
              a_change_percent = round2 (percent_change current_total previous_total)\<rparr>))))))"

definition get_author_trends ::
  "database \<Rightarrow> int \<Rightarrow> int \<Rightarrow> int \<Rightarrow> exn + AuthorTrendsResponse" where
  "get_author_trends db now aid days =
     (case get_author_trends_try db now aid days of
        Inl e \<Rightarrow> Inl (HTTPException 500 (str_exn e))
      | Inr r \<Rightarrow> Inr r)"

section \<open>Summary endpoint\<close>

record SummaryMetrics =
  total_authors :: int
  total_posts :: int
  total_engagements :: int
  total_views :: int
  total_likes :: int
  total_comments :: int
  total_shares :: int
  avg_engagement_per_post :: rat

text \<open>
  A row of \<^verbatim>\<open>authors a LEFT JOIN posts p ... LEFT JOIN engagements e ...\<close>: the columns of
  a table that found no partner are all NULL, which is \<open>None\<close> for the whole table row.
\<close>

type_synonym joined_row = "author_row \<times> post_row option \<times> engagement_row option"

text \<open>\<^verbatim>\<open>FROM authors a LEFT JOIN posts p ON a.author_id = p.author_id\<close>.\<close>

definition left_join_posts ::
  "author_row list \<Rightarrow> post_row list \<Rightarrow> (author_row \<times> post_row option) list" where
  "left_join_posts as ps =
     concat (map (\<lambda>a.
       (let ms = filter (\<lambda>p. a_author_id a = p_author_id p) ps
        in if ms = [] then [(a, None)] else map (\<lambda>p. (a, Some p)) ms)) as)"

text \<open>
  \<^verbatim>\<open>LEFT JOIN engagements e ON p.post_id = e.post_id\<close>: a row whose post is NULL matches
  no engagement.
\<close>

definition left_join_engagements ::
  "(author_row \<times> post_row option) list \<Rightarrow> engagement_row list \<Rightarrow> joined_row list" where
  "left_join_engagements rows es =
     concat (map (\<lambda>(a, po).
       (let ms = (case po of None \<Rightarrow> []
                  | Some p \<Rightarrow> filter (\<lambda>e. p_post_id p = e_post_id e) es)
        in if ms = [] then [(a, po, None)] else map (\<lambda>e. (a, po, Some e)) ms)) rows)"

text \<open>The column \<^verbatim>\<open>p.publish_timestamp\<close> of a joined row.\<close>

fun row_publish_timestamp :: "joined_row \<Rightarrow> int option" where
  "row_publish_timestamp (a, None, eo) = None"
| "row_publish_timestamp (a, Some p, eo) = p_publish_timestamp p"

text \<open>\<^verbatim>\<open>WHERE p.publish_timestamp >= start_date OR p.publish_timestamp IS NULL\<close>.\<close>

definition summary_where :: "int \<Rightarrow> joined_row \<Rightarrow> bool" where
  "summary_where start_date row =
     (case row_publish_timestamp row of None \<Rightarrow> True | Some t \<Rightarrow> t \<ge> start_date)"

text \<open>\<^verbatim>\<open>COUNT(DISTINCT col)\<close>: the number of distinct values that are not NULL.\<close>

definition count_distinct :: "int option list \<Rightarrow> int" where
  "count_distinct vs = int (length (remdups (filter (\<lambda>v. v \<noteq> None) vs)))"

text \<open>\<^verbatim>\<open>COUNT(col)\<close>: the number of values that are not NULL.\<close>

definition count_not_null :: "int option list \<Rightarrow> int" where
  "count_not_null vs = int (length (filter (\<lambda>v. v \<noteq> None) vs))"

fun col_author_id :: "joined_row \<Rightarrow> int option" where
  "col_author_id (a, po, eo) = Some (a_author_id a)"

fun col_post_id :: "joined_row \<Rightarrow> int option" where
  "col_post_id (a, po, eo) = map_option p_post_id po"

fun col_engagement_id :: "joined_row \<Rightarrow> int option" where
  "col_engagement_id (a, po, eo) = map_option e_engagement_id eo"

fun col_type :: "joined_row \<Rightarrow> string option" where
  "col_type (a, po, eo) = map_option e_type eo"

text \<open>\<^verbatim>\<open>COUNT(*) FILTER (WHERE e.type = ty)\<close> over the joined rows.\<close>

definition count_type :: "string \<Rightarrow> joined_row list \<Rightarrow> int" where
  "count_type ty rows = int (length (filter (\<lambda>r. col_type r = Some ty) rows))"

text \<open>\<^verbatim>\<open>NULLIF(x, 0)\<close>.\<close>

definition nullif0 :: "int \<Rightarrow> int option" where
  "nullif0 x = (if x = 0 then None else Some x)"

text \<open>\<^verbatim>\<open>ROUND(v, 2)\<close> on a NUMERIC: to the nearest 1/100, a tie away from zero.\<close>

definition sql_round2 :: "rat \<Rightarrow> rat" where
  "sql_round2 v = sgn v * of_int \<lfloor>\<bar>v\<bar> * 100 + 1/2\<rfloor> / 100"

text \<open>\<^verbatim>\<open>ROUND(n::NUMERIC / d, 2)\<close>, NULL when the divisor is NULL.\<close>

definition sql_avg :: "int \<Rightarrow> int option \<Rightarrow> rat option" where
  "sql_avg n d = map_option (\<lambda>k. sql_round2 (of_int n / of_int k)) d"

text \<open>
  Python's \<^verbatim>\<open>x or 0\<close>, for a count and for the NUMERIC that may be NULL; \<^verbatim>\<open>float(...)\<close> of
  the latter is its nearest double.
\<close>

definition or_zero :: "int \<Rightarrow> int" where
  "or_zero x = (if x = 0 then 0 else x)"

definition or_zero_numeric :: "rat option \<Rightarrow> rat" where
  "or_zero_numeric v = (case v of None \<Rightarrow> 0 | Some x \<Rightarrow> if x = 0 then 0 else x)"

definition summary_rows :: "database \<Rightarrow> int \<Rightarrow> joined_row list" where
  "summary_rows db start_date =
     filter (summary_where start_date)
       (left_join_engagements (left_join_posts (authors db) (posts db)) (engagements db))"

definition get_analytics_summary_try :: "database \<Rightarrow> int \<Rightarrow> int \<Rightarrow> exn + SummaryMetrics" where
  "get_analytics_summary_try db now days =
     (case timedelta_days days of Inl e \<Rightarrow> Inl e | Inr td \<Rightarrow>
     (case datetime_sub now td of Inl e \<Rightarrow> Inl e | Inr start_date \<Rightarrow>
     (let rows = summary_rows db start_date;
          n_posts = count_distinct (map col_post_id rows);
          n_engagements = count_not_null (map col_engagement_id rows)
      in Inr \<lparr>total_authors = or_zero (count_distinct (map col_author_id rows)),
              total_posts = or_zero n_posts,
              total_engagements = or_zero n_engagements,
              total_views = or_zero (count_type ''view'' rows),
              total_likes = or_zero (count_type ''like'' rows),
              total_comments = or_zero (count_type ''comment'' rows),
              total_shares = or_zero (count_type ''share'' rows),
              avg_engagement_per_post =
                fl (or_zero_numeric (sql_avg n_engagements (nullif0 n_posts)))\<rparr>)))"

definition get_analytics_summary :: "database \<Rightarrow> int \<Rightarrow> int \<Rightarrow> exn + SummaryMetrics" where
  "get_analytics_summary db now days =
     (case get_analytics_summary_try db now days of
        Inl e \<Rightarrow> Inl (HTTPException 500 (str_exn e))
      | Inr r \<Rightarrow> Inr r)"

section \<open>Dataset generator\<close>

text \<open>
  One pass of the loop of \<^verbatim>\<open>generate_engagements\<close>. What the random number generator
  returns is an argument: \<open>post\<close> is the element \<^verbatim>\<open>random.choice(posts)\<close> picked,
  \<open>expo\<close> the value of \<^verbatim>\<open>random.expovariate(0.1)\<close>, \<open>hour_adjustment\<close> the element picked
  from \<^verbatim>\<open>range(-3, 4)\<close>.
\<close>

record generated_engagement =
  g_engagement_id :: int
  g_post_id :: int
  g_type :: string
  g_user_id :: "int option"
  g_engaged_timestamp :: int

text \<open>The integral part of a number, as C's \<^verbatim>\<open>modf\<close> splits it off.\<close>

definition trunc :: "rat \<Rightarrow> int" where
  "trunc h = (if 0 \<le> h then \<lfloor>h\<rfloor> else \<lceil>h\<rceil>)"

text \<open>
  \<^verbatim>\<open>timedelta(hours=h)\<close>, in microseconds. CPython converts the whole hours exactly,
  multiplies the fraction of an hour by 3600000000.0 in floating point, and rounds the sum to
  a whole number of microseconds, a tie going to the even one. For an \<^verbatim>\<open>int\<close> the result
  is \<open>3600000000 * h\<close>.
\<close>

definition timedelta_hours :: "rat \<Rightarrow> int" where
  "timedelta_hours h =
     (let i = trunc h; f = h - of_int i
      in round_half_even (of_int (i * 3600000000) + fl (f * 3600000000)))"

definition engagement_types :: "string list" where
  "engagement_types = [''view'', ''like'', ''comment'', ''share'']"

definition hour_adjustments :: "int list" where
  "hour_adjustments = [-3, -2, -1, 0, 1, 2, 3]"

definition MAX_LAG_HOURS :: rat where
  "MAX_LAG_HOURS = 720"

definition generate_engagement ::
  "int \<Rightarrow> int \<times> int \<Rightarrow> string \<Rightarrow> int option \<Rightarrow> rat \<Rightarrow> int \<Rightarrow> generated_engagement" where
  "generate_engagement i post engagement_type user_id expo hour_adjustment =
     (let (pid, publish_time) = post;
          hours_after_publish = min expo MAX_LAG_HOURS;
          engaged_time = publish_time + timedelta_hours hours_after_publish;
          engaged_time' = engaged_time + timedelta_hours (of_int hour_adjustment)
      in \<lparr>g_engagement_id = i, g_post_id = pid, g_type = engagement_type,
          g_user_id = user_id, g_engaged_timestamp = engaged_time'\<rparr>)"

text \<open>
  \<^verbatim>\<open>random.expovariate(0.1)\<close> is \<^verbatim>\<open>-math.log(1.0 - random()) / 0.1\<close>, and \<^verbatim>\<open>random()\<close> is
  at most \<open>1 - 2\<^sup>-\<^sup>5\<^sup>3\<close>: the result is a double from 0 to \<open>530 ln 2\<close>, which is 367.37.
\<close>

definition EXPOVARIATE_MAX :: rat where
  "EXPOVARIATE_MAX = 368"

text \<open>
  The outcomes the random number generator can produce for a pass, given the posts read
  from the database (a superset: not every double of the range need be one that
  \<^verbatim>\<open>expovariate\<close> returns).
\<close>

definition possible_draw :: "(int \<times> int) list \<Rightarrow> int \<times> int \<Rightarrow> string \<Rightarrow> rat \<Rightarrow> int \<Rightarrow> bool" where
  "possible_draw ps post engagement_type expo hour_adjustment =
     (post \<in> set ps \<and> engagement_type \<in> set engagement_types
      \<and> fl expo = expo \<and> 0 \<le> expo \<and> expo \<le> EXPOVARIATE_MAX
      \<and> hour_adjustment \<in> set hour_adjustments)"

section \<open>Sample data\<close>

text \<open>
  A small database used to run the handlers: two authors, of whom the second has no post,
  one post, and five engagements around day 100.
\<close>

definition sample_db :: database where
  "sample_db =
     \<lparr>authors = [\<lparr>a_author_id = 1, a_name = ''Ann''\<rparr>, \<lparr>a_author_id = 2, a_name = ''Bob''\<rparr>],
      posts = [\<lparr>p_post_id = 101, p_author_id = 1, p_title = ''Hello'',
                 p_publish_timestamp = Some (90 * 86400000000)\<rparr>],
      engagements =
        [\<lparr>e_engagement_id = 2001, e_post_id = 101, e_type = ''view'',
           e_engaged_timestamp = 101 * 86400000000\<rparr>,
         \<lparr>e_engagement_id = 2002, e_post_id = 101, e_type = ''like'',
           e_engaged_timestamp = 99 * 86400000000 + 5\<rparr>,
         \<lparr>e_engagement_id = 2003, e_post_id = 101, e_type = ''view'',
           e_engaged_timestamp = 99 * 86400000000 + 7\<rparr>,
         \<lparr>e_engagement_id = 2004, e_post_id = 101, e_type = ''view'',
           e_engaged_timestamp = 90 * 86400000000 + 7\<rparr>,
         \<lparr>e_engagement_id = 2005, e_post_id = 101, e_type = ''share'',
           e_engaged_timestamp = 92 * 86400000000\<rparr>]\<rparr>"

text \<open>The time of the request: the start of day 100.\<close>

definition sample_now :: int where
  "sample_now = 100 * 86400000000"

text \<open>
  A busier database: one post with 150 engagements on day 95 and 100 on day 90.
\<close>

definition busy_db :: database where
  "busy_db =
     \<lparr>authors = [\<lparr>a_author_id = 1, a_name = ''Ann''\<rparr>],
      posts = [\<lparr>p_post_id = 101, p_author_id = 1, p_title = ''Hello'',
                 p_publish_timestamp = Some (80 * 86400000000)\<rparr>],
      engagements =
        replicate 150 \<lparr>e_engagement_id = 1, e_post_id = 101, e_type = ''view'',
                        e_engaged_timestamp = 95 * 86400000000\<rparr>
        @ replicate 100 \<lparr>e_engagement_id = 2, e_post_id = 101, e_type = ''view'',
                          e_engaged_timestamp = 90 * 86400000000\<rparr>\<rparr>"

text \<open>
  A database on which rounding shows: one post with 137 engagements on day 95 and 160 on
  day 90.
\<close>

definition rounding_db :: database where
  "rounding_db =
     \<lparr>authors = [\<lparr>a_author_id = 1, a_name = ''Ann''\<rparr>],
      posts = [\<lparr>p_post_id = 101, p_author_id = 1, p_title = ''Hello'',
                 p_publish_timestamp = Some (80 * 86400000000)\<rparr>],
      engagements =
        replicate 137 \<lparr>e_engagement_id = 1, e_post_id = 101, e_type = ''view'',
                        e_engaged_timestamp = 95 * 86400000000\<rparr>
        @ replicate 160 \<lparr>e_engagement_id = 2, e_post_id = 101, e_type = ''view'',
                          e_engaged_timestamp = 90 * 86400000000\<rparr>\<rparr>"

section \<open>What the specification says of the results\<close>

text \<open>
  The two windows of the specification for a request at \<open>now\<close> over \<open>n\<close> days:
  \<open>[now - n, now)\<close> and \<open>[now - 2n, now - n)\<close>.
\<close>

definition spec_current_window :: "int \<Rightarrow> int \<Rightarrow> engagement_row \<Rightarrow> bool" where
  "spec_current_window now n e \<longleftrightarrow>
     now - n * MICROS_PER_DAY \<le> e_engaged_timestamp e \<and> e_engaged_timestamp e < now"

definition spec_previous_window :: "int \<Rightarrow> int \<Rightarrow> engagement_row \<Rightarrow> bool" where
  "spec_previous_window now n e \<longleftrightarrow>
     now - 2 * n * MICROS_PER_DAY \<le> e_engaged_timestamp e
     \<and> e_engaged_timestamp e < now - n * MICROS_PER_DAY"

text \<open>
  The series the specification describes for the engagements \<open>rows\<close> of a window: one row
  for each day on which \<open>rows\<close> has an engagement, no row for any other day, and in each
  row the number of that day's engagements of each type and of all of them.
\<close>

definition spec_daily_series :: "engagement_row list \<Rightarrow> EngagementTrend list \<Rightarrow> bool" where
  "spec_daily_series rows series \<longleftrightarrow>
     distinct (map date series)
     \<and> date ` set series = day_of ` set rows
     \<and> (\<forall>r \<in> set series.
          views r = int (length (filter (\<lambda>e. day_of e = date r \<and> e_type e = ''view'') rows))
          \<and> likes r = int (length (filter (\<lambda>e. day_of e = date r \<and> e_type e = ''like'') rows))
          \<and> comments r
               = int (length (filter (\<lambda>e. day_of e = date r \<and> e_type e = ''comment'') rows))
          \<and> shares r = int (length (filter (\<lambda>e. day_of e = date r \<and> e_type e = ''share'') rows))
          \<and> total r = int (length (filter (\<lambda>e. day_of e = date r) rows)))"

text \<open>
  The authors the specification says the summary counts: those without any post, and those
  with a post whose publish timestamp is NULL or not before the start of the window.
\<close>

definition spec_author_counted :: "database \<Rightarrow> int \<Rightarrow> author_row \<Rightarrow> bool" where
  "spec_author_counted db start_date a \<longleftrightarrow>
     (\<forall>p \<in> set (posts db). p_author_id p \<noteq> a_author_id a)
     \<or> (\<exists>p \<in> set (posts db). p_author_id p = a_author_id a
           \<and> (case p_publish_timestamp p of None \<Rightarrow> True | Some t \<Rightarrow> start_date \<le> t))"


section \<open>Rounding to a double\<close>

lemma round_half_even_lower: "of_int k \<le> y \<Longrightarrow> k \<le> round_half_even y"
proof -
  assume "of_int k \<le> y"
  then have "k \<le> \<lfloor>y\<rfloor>" by (simp add: le_floor_iff)
  then show ?thesis
    by (simp add: round_half_even_def Let_def)
qed

lemma round_half_even_upper: "y \<le> of_int k \<Longrightarrow> round_half_even y \<le> k"
proof -
  assume y: "y \<le> of_int k"
  then have f: "\<lfloor>y\<rfloor> \<le> k" by (simp add: floor_le_iff)
  have "\<lfloor>y\<rfloor> + 1 \<le> k" if "1/2 \<le> y - of_int \<lfloor>y\<rfloor>"
  proof -
    from that have "of_int \<lfloor>y\<rfloor> < y" by simp
    with y have "(of_int \<lfloor>y\<rfloor> :: rat) < of_int k" by simp
    then show ?thesis by simp
  qed
  with f show ?thesis
    by (auto simp: round_half_even_def Let_def)
qed

lemma round_half_even_of_int: "round_half_even (of_int k) = k"
  by (simp add: round_half_even_def)

lemma pow2_pos [simp]: "0 < pow2 e"
  by (simp add: pow2_def)

lemma pow2_add: "pow2 (a + b) = pow2 a * pow2 b"
  by (simp add: pow2_def power_int_add)

lemma pow2_diff: "pow2 (a - b) = pow2 a / pow2 b"
  by (simp add: pow2_def power_int_diff)

lemma pow2_mono: "a \<le> b \<Longrightarrow> pow2 a \<le> pow2 b"
  by (simp add: pow2_def power_int_increasing)

lemma pow2_bitlen:
  assumes "0 < a"
  shows "pow2 (bitlen a - 1) \<le> of_int a" and "of_int a < pow2 (bitlen a)"
proof -
  from bitlen_bounds [OF assms] have l: "2 ^ nat (bitlen a - 1) \<le> a" and u: "a < 2 ^ nat (bitlen a)"
    by auto
  have b: "1 \<le> bitlen a"
    using assms bitlen_eq_zero_iff [of a] bitlen_nonneg [of a] by linarith
  have "pow2 (bitlen a - 1) = of_int (2 ^ nat (bitlen a - 1))"
    using b by (simp add: pow2_def power_int_def)
  also have "\<dots> \<le> of_int a"
    using l by (simp only: of_int_le_iff)
  finally show "pow2 (bitlen a - 1) \<le> of_int a" .
  have "(of_int a :: rat) < of_int (2 ^ nat (bitlen a))"
    using u by (simp only: of_int_less_iff)
  also have "\<dots> = pow2 (bitlen a)"
    using b by (simp add: pow2_def power_int_def)
  finally show "of_int a < pow2 (bitlen a)" .
qed

lemma float_exponent_bounds:
  assumes "x \<noteq> 0"
  shows "pow2 (float_exponent x) \<le> \<bar>x\<bar>" and "\<bar>x\<bar> < pow2 (float_exponent x + 1)"
proof -
  obtain a b where q: "quotient_of \<bar>x\<bar> = (a, b)"
    by (cases "quotient_of \<bar>x\<bar>")
  then have b: "0 < b" and x: "\<bar>x\<bar> = of_int a / of_int b"
    by (auto dest: quotient_of_denom_pos quotient_of_div)
  have "0 < \<bar>x\<bar>" using assms by simp
  then have "(0::rat) < of_int a / of_int b" by (simp only: x)
  with b have a: "0 < a"
    by (simp add: zero_less_divide_iff)
  define e0 where "e0 = bitlen a - bitlen b"
  have e: "float_exponent x = (if pow2 e0 \<le> \<bar>x\<bar> then e0 else e0 - 1)"
    by (simp add: float_exponent_def q e0_def)
  have bp: "(0::rat) < of_int b" using b by simp
  have "\<bar>x\<bar> < pow2 (bitlen a) / pow2 (bitlen b - 1)"
    unfolding x using pow2_bitlen [OF a] pow2_bitlen [OF b] a
    by (intro frac_less) simp_all
  also have "\<dots> = pow2 (bitlen a - (bitlen b - 1))"
    by (simp only: pow2_diff)
  also have "bitlen a - (bitlen b - 1) = e0 + 1"
    by (simp add: e0_def)
  finally have up: "\<bar>x\<bar> < pow2 (e0 + 1)" .
  have "e0 - 1 = bitlen a - 1 - bitlen b"
    by (simp add: e0_def)
  then have "pow2 (e0 - 1) = pow2 (bitlen a - 1) / pow2 (bitlen b)"
    by (simp only: pow2_diff)
  also have "\<dots> \<le> \<bar>x\<bar>"
    unfolding x using pow2_bitlen [OF a] pow2_bitlen [OF b] bp a
    by (intro frac_le) simp_all
  finally have low: "pow2 (e0 - 1) \<le> \<bar>x\<bar>" .
  show "pow2 (float_exponent x) \<le> \<bar>x\<bar>"
    using low by (simp add: e)
  show "\<bar>x\<bar> < pow2 (float_exponent x + 1)"
    using up by (auto simp: e not_le)
qed

lemma round_half_even_error: "\<bar>of_int (round_half_even y) - y\<bar> \<le> 1/2"
proof -
  have "of_int \<lfloor>y\<rfloor> \<le> y" "y < of_int \<lfloor>y\<rfloor> + 1"
    by linarith+
  then show ?thesis
    by (auto simp: round_half_even_def Let_def abs_le_iff)
qed

lemma fl_error:
  "\<bar>fl x - x\<bar> \<le> pow2 (max (float_exponent x - 52) (- 1074)) / 2"
proof (cases "x = 0")
  case True
  then show ?thesis by (simp add: fl_def order_less_imp_le)
next
  case False
  define q where "q = pow2 (max (float_exponent x - 52) (- 1074))"
  have q: "0 < q" by (simp add: q_def)
  have "fl x - x = (of_int (round_half_even (x / q)) - x / q) * q"
    using False q by (simp add: fl_def q_def [symmetric] Let_def algebra_simps)
  then have "\<bar>fl x - x\<bar> = \<bar>of_int (round_half_even (x / q)) - x / q\<bar> * q"
    using q by (simp add: abs_mult)
  also have "\<dots> \<le> (1/2) * q"
    using round_half_even_error [of "x / q"] q by (intro mult_right_mono) simp_all
  finally show ?thesis by (simp add: q_def)
qed

lemma fl_relative_error:
  assumes "pow2 (- 1022) \<le> \<bar>x\<bar>"
  shows "\<bar>fl x - x\<bar> \<le> \<bar>x\<bar> * pow2 (- 53)"
proof -
  have x: "x \<noteq> 0"
  proof
    assume "x = 0"
    with assms have "pow2 (- 1022) \<le> 0" by simp
    with pow2_pos [of "- 1022"] show False by linarith
  qed
  have "pow2 (- 1022) < pow2 (float_exponent x + 1)"
    using assms float_exponent_bounds(2) [OF x] by simp
  then have "- 1022 < float_exponent x + 1"
    using pow2_mono [of "float_exponent x + 1" "- 1022"] by (cases "- 1022 < float_exponent x + 1") auto
  then have m: "max (float_exponent x - 52) (- 1074) = float_exponent x - 52"
    by simp
  have "\<bar>fl x - x\<bar> \<le> pow2 (float_exponent x - 52) / 2"
    using fl_error [of x] by (simp only: m)
  also have "\<dots> = pow2 (float_exponent x) * pow2 (- 53)"
  proof -
    have "pow2 (float_exponent x - 52) = pow2 (float_exponent x) / pow2 52"
      by (rule pow2_diff)
    moreover have "pow2 (- 53) = 1 / (pow2 52 * 2)"
      by (simp add: pow2_def)
    ultimately show ?thesis by simp
  qed
  also have "\<dots> \<le> \<bar>x\<bar> * pow2 (- 53)"
    using float_exponent_bounds(1) [OF x] by (intro mult_right_mono) (simp_all add: order_less_imp_le)
  finally show ?thesis .
qed

lemma round_half_even_nonneg: "0 \<le> y \<Longrightarrow> 0 \<le> round_half_even y"
  using round_half_even_lower [of 0 y] by simp

lemma fl_nonneg: "0 \<le> x \<Longrightarrow> 0 \<le> fl x"
  by (simp add: fl_def Let_def round_half_even_nonneg order_less_imp_le)

lemma fl_error_bound: "\<bar>fl x - x\<bar> \<le> \<bar>x\<bar> * pow2 (- 53) + pow2 (- 1075)"
proof (cases "x = 0 \<or> pow2 (- 1022) \<le> \<bar>x\<bar>")
  case True
  then consider "x = 0" | "pow2 (- 1022) \<le> \<bar>x\<bar>" by blast
  then show ?thesis
  proof cases
    case 1
    then show ?thesis by (simp add: fl_def order_less_imp_le)
  next
    case 2
    then have "\<bar>fl x - x\<bar> \<le> \<bar>x\<bar> * pow2 (- 53)"
      by (rule fl_relative_error)
    moreover have "0 < pow2 (- 1075)" by (rule pow2_pos)
    ultimately show ?thesis by linarith
  qed
next
  case False
  then have x: "x \<noteq> 0" and small: "\<bar>x\<bar> < pow2 (- 1022)"
    by auto
  have "pow2 (float_exponent x) < pow2 (- 1022)"
    using float_exponent_bounds(1) [OF x] small by linarith
  then have "float_exponent x < - 1022"
    using pow2_mono [of "- 1022" "float_exponent x"]
    by (cases "float_exponent x < - 1022") auto
  then have m: "max (float_exponent x - 52) (- 1074) = - 1074"
    by simp
  have "pow2 (- 1074) / 2 = pow2 (- 1075)"
  proof -
    have "pow2 (- 1075) = pow2 (- 1074 - 1)" by simp
    also have "\<dots> = pow2 (- 1074) / pow2 1" by (rule pow2_diff)
    finally show ?thesis by (simp add: pow2_def)
  qed
  with fl_error [of x] m have "\<bar>fl x - x\<bar> \<le> pow2 (- 1075)"
    by simp
  moreover have "0 \<le> \<bar>x\<bar> * pow2 (- 53)"
    by (simp add: order_less_imp_le)
  ultimately show ?thesis by linarith
qed

lemma pow2_small: "pow2 (- 53) \<le> 1 / 8000000000000000" "pow2 (- 1075) \<le> 1 / 4"
  by (simp_all add: pow2_def)

lemma fl_error_weak: "\<bar>fl x - x\<bar> \<le> \<bar>x\<bar> / 8000000000000000 + 1 / 100000000000000000000"
proof -
  have "\<bar>x\<bar> * pow2 (- 53) \<le> \<bar>x\<bar> * (1 / 8000000000000000)"
    using pow2_small(1) by (intro mult_left_mono) simp_all
  moreover have "pow2 (- 1075) \<le> 1 / 100000000000000000000"
    by (simp add: pow2_def)
  ultimately show ?thesis
    using fl_error_bound [of x] by simp
qed

lemma round2_hundredth: "\<exists>k. round2 x = fl (of_int k / 100) \<and> \<bar>of_int k / 100 - x\<bar> \<le> 1 / 200"
proof -
  have "\<bar>of_int (round_half_even (x * 100)) - x * 100\<bar> \<le> 1 / 2"
    by (rule round_half_even_error)
  then have "\<bar>of_int (round_half_even (x * 100)) / 100 - x\<bar> \<le> 1 / 200"
    by (simp add: abs_le_iff field_simps)
  then show ?thesis
    unfolding round2_def by blast
qed

lemma rounding_chain:
  fixes A :: rat
  assumes b1: "e1 \<le> A / 8000000000000000 + 1 / 100000000000000000000"
    and b2: "e2 \<le> X1 * 100 / 8000000000000000 + 1 / 100000000000000000000"
    and b3: "e3 \<le> 1 / 200"
    and b4: "e4 \<le> D / 8000000000000000 + 1 / 100000000000000000000"
    and t1: "X1 \<le> A + e1"
    and t2: "F \<le> e2 + 100 * e1"
    and t3: "X2 \<le> 100 * A + F"
    and t5: "G \<le> e4 + e3 + F"
    and t4: "D \<le> X2 + e3"
    and A0: "0 \<le> A"
  shows "G \<le> 1 / 200 + (100 * A + 1) / 1000000000000000"
proof -
  have s1: "X1 \<le> 2 * A + 1 / 100000000000000000000"
    using b1 t1 A0 by linarith
  have s2: "e2 \<le> A / 40000000000000 + 1 / 50000000000000000000"
    using b2 s1 by linarith
  have s3: "F \<le> A / 20000000000000 + 1 / 100000000000000000"
    using t2 s2 b1 A0 by linarith
  have s4: "D \<le> 101 * A + 1"
    using t4 t3 s3 b3 A0 by linarith
  have s5: "e4 \<le> A / 70000000000000 + 1 / 7000000000000000"
    using b4 s4 A0 by linarith
  have "G \<le> 1 / 200 + (A / 10000000000000 + 1 / 1000000000000000)"
    using t5 s5 b3 s3 A0 by linarith
  then show ?thesis
    by (simp add: add_divide_distrib)
qed


lemma percent_change_accuracy:
  fixes a :: rat
  defines "E \<equiv> a * 100"
  shows "\<bar>round2 (fl (fl a * 100)) - E\<bar> \<le> 1 / 200 + (\<bar>E\<bar> + 1) / 1000000000000000"
proof -
  define x1 where "x1 = fl a"
  define x2 where "x2 = fl (x1 * 100)"
  obtain k where k: "round2 x2 = fl (of_int k / 100)" and d: "\<bar>of_int k / 100 - x2\<bar> \<le> 1 / 200"
    using round2_hundredth [of x2] by blast
  define d where "d = (of_int k / 100 :: rat)"
  define x3 where "x3 = fl d"
  define A where "A = \<bar>a\<bar>"
  define X1 where "X1 = \<bar>x1\<bar>"
  define X2 where "X2 = \<bar>x2\<bar>"
  define D where "D = \<bar>d\<bar>"
  define e1 where "e1 = \<bar>x1 - a\<bar>"
  define e2 where "e2 = \<bar>x2 - x1 * 100\<bar>"
  define e3 where "e3 = \<bar>d - x2\<bar>"
  define e4 where "e4 = \<bar>x3 - d\<bar>"
  have b1: "e1 \<le> A / 8000000000000000 + 1 / 100000000000000000000"
    unfolding e1_def A_def x1_def by (rule fl_error_weak)
  have b2: "e2 \<le> X1 * 100 / 8000000000000000 + 1 / 100000000000000000000"
    unfolding e2_def X1_def x2_def using fl_error_weak [of "x1 * 100"] by (simp add: abs_mult)
  have b3: "e3 \<le> 1 / 200"
    unfolding e3_def d_def by (rule d)
  have b4: "e4 \<le> D / 8000000000000000 + 1 / 100000000000000000000"
    unfolding e4_def D_def x3_def by (rule fl_error_weak)
  have t1: "X1 \<le> A + e1"
    unfolding X1_def A_def e1_def by linarith
  have t2: "\<bar>x2 - E\<bar> \<le> e2 + 100 * e1"
  proof -
    have "x2 - E = (x2 - x1 * 100) + 100 * (x1 - a)"
      by (simp add: E_def)
    then have "\<bar>x2 - E\<bar> \<le> \<bar>x2 - x1 * 100\<bar> + \<bar>100 * (x1 - a)\<bar>"
      by (simp only: abs_triangle_ineq)
    moreover have "\<bar>100 * (x1 - a)\<bar> = 100 * \<bar>x1 - a\<bar>"
      by (subst abs_mult) simp
    ultimately show ?thesis
      by (simp only: e2_def e1_def)
  qed
  have t3: "X2 \<le> \<bar>E\<bar> + \<bar>x2 - E\<bar>"
    unfolding X2_def by linarith
  have t4: "D \<le> X2 + e3"
    unfolding D_def X2_def e3_def by linarith
  have t5: "\<bar>x3 - E\<bar> \<le> e4 + e3 + \<bar>x2 - E\<bar>"
    unfolding e4_def e3_def by linarith
  have AE: "\<bar>E\<bar> = 100 * A"
    by (simp add: E_def A_def abs_mult)
  have A0: "0 \<le> A" by (simp add: A_def)
  define F where "F = \<bar>x2 - E\<bar>"
  define G where "G = \<bar>x3 - E\<bar>"
  note f = t2 [folded F_def] t3 [folded F_def] t5 [folded F_def G_def]
  have "G \<le> 1 / 200 + (100 * A + 1) / 1000000000000000"
    using b1 b2 b3 b4 t1 f t4 A0 unfolding AE by (rule rounding_chain)
  then show ?thesis
    by (simp add: G_def AE x3_def d_def k [symmetric] x2_def x1_def)
qed

section \<open>Grouping and ordering\<close>

lemma add_to_group_keys:
  "fst ` set (add_to_group e gs) = insert (day_of e) (fst ` set gs)"
  by (induction gs) (force split: if_splits)+

lemma add_to_group_distinct:
  "distinct (map fst gs) \<Longrightarrow> distinct (map fst (add_to_group e gs))"
  by (induction gs) (auto simp: add_to_group_keys)

lemma add_to_group_old:
  "(d, es) \<in> set (add_to_group e gs) \<Longrightarrow> d \<noteq> day_of e \<Longrightarrow> (d, es) \<in> set gs"
  by (induction gs) (auto split: if_splits)

lemma add_to_group_new:
  "distinct (map fst gs) \<Longrightarrow> (day_of e, es) \<in> set (add_to_group e gs) \<Longrightarrow>
     (day_of e \<notin> fst ` set gs \<and> es = [e]) \<or> (\<exists>es'. (day_of e, es') \<in> set gs \<and> es = es' @ [e])"
  by (induction gs) (auto split: if_splits simp: rev_image_eqI)

lemma group_by_date_snoc:
  "group_by_date (rows @ [e]) = add_to_group e (group_by_date rows)"
  by (simp add: group_by_date_def)

lemma group_by_date_keys:
  "fst ` set (group_by_date rows) = day_of ` set rows"
  by (induction rows rule: rev_induct) (auto simp: group_by_date_snoc add_to_group_keys, simp add: group_by_date_def)

lemma group_by_date_distinct: "distinct (map fst (group_by_date rows))"
  by (induction rows rule: rev_induct) (auto simp: group_by_date_snoc add_to_group_distinct, simp add: group_by_date_def)

lemma group_by_date_members:
  "(d, es) \<in> set (group_by_date rows) \<Longrightarrow> es = filter (\<lambda>e. day_of e = d) rows"
proof (induction rows arbitrary: es rule: rev_induct)
  case Nil
  then show ?case by (simp add: group_by_date_def)
next
  case (snoc e rows)
  show ?case
  proof (cases "d = day_of e")
    case False
    with snoc.prems have "(d, es) \<in> set (group_by_date rows)"
      by (auto simp: group_by_date_snoc dest: add_to_group_old)
    with snoc.IH False show ?thesis by auto
  next
    case True
    from snoc.prems True have "(day_of e, es) \<in> set (add_to_group e (group_by_date rows))"
      by (simp add: group_by_date_snoc)
    from add_to_group_new [OF group_by_date_distinct this]
    consider "day_of e \<notin> fst ` set (group_by_date rows)" "es = [e]"
      | es' where "(day_of e, es') \<in> set (group_by_date rows)" "es = es' @ [e]"
      by blast
    then show ?thesis
    proof cases
      case 1
      then have "filter (\<lambda>x. day_of x = d) rows = []"
        using True by (auto simp: group_by_date_keys filter_empty_conv image_iff)
      with 1 True show ?thesis by simp
    next
      case 2
      with snoc.IH True show ?thesis by auto
    qed
  qed
qed

lemma insort_key_sum:
  "sum_list (map g (insort_key f x xs)) = (g x :: int) + sum_list (map g xs)"
  by (induction xs) auto

lemma sort_key_sum: "sum_list (map g (sort_key f xs)) = (sum_list (map g xs) :: int)"
  by (induction xs) (auto simp: insort_key_sum)

lemma add_to_group_sizes:
  "sum_list (map (\<lambda>g. int (length (snd g))) (add_to_group e gs))
     = 1 + sum_list (map (\<lambda>g. int (length (snd g))) gs)"
  by (induction gs) auto

lemma group_by_date_sizes:
  "sum_list (map (\<lambda>g. int (length (snd g))) (group_by_date rows)) = int (length rows)"
  by (induction rows rule: rev_induct) (auto simp: group_by_date_snoc add_to_group_sizes, simp add: group_by_date_def)

lemma trend_query_total: "sum_list (map total (trend_query rows)) = int (length rows)"
proof -
  have "map total (map (\<lambda>(d, es). select_row d es) (group_by_date rows))
          = map (\<lambda>g. int (length (snd g))) (group_by_date rows)"
    by (auto simp: select_row_def)
  then show ?thesis
    by (simp add: trend_query_def order_by_date_def sort_key_sum group_by_date_sizes del: map_map)
qed

lemma trend_query_set:
  "set (trend_query rows) = (\<lambda>(d, es). select_row d es) ` set (group_by_date rows)"
  by (simp add: trend_query_def order_by_date_def)

lemma trend_query_sorted: "sorted (map date (trend_query rows))"
  by (simp add: trend_query_def order_by_date_def)

lemma select_row_date: "date (select_row d es) = d"
  by (simp add: select_row_def)

lemma trend_query_distinct: "distinct (map date (trend_query rows))"
proof -
  have "map date (map (\<lambda>(d, es). select_row d es) (group_by_date rows)) = map fst (group_by_date rows)"
    by (auto simp: select_row_date)
  then have "distinct (map date (map (\<lambda>(d, es). select_row d es) (group_by_date rows)))"
    by (simp only: group_by_date_distinct)
  then show ?thesis
    unfolding trend_query_def order_by_date_def
    by (simp add: distinct_map del: map_map)
qed

lemma trend_query_strict: "sorted_wrt (<) (map date (trend_query rows))"
  by (simp add: strict_sorted_iff trend_query_sorted trend_query_distinct)

lemma trend_query_date_set: "date ` set (trend_query rows) = day_of ` set rows"
proof -
  have "date ` set (trend_query rows) = fst ` set (group_by_date rows)"
    by (force simp: trend_query_set select_row_date)
  then show ?thesis by (simp add: group_by_date_keys)
qed

lemma trend_query_row:
  assumes "r \<in> set (trend_query rows)"
  shows "r = select_row (date r) (filter (\<lambda>e. day_of e = date r) rows)"
proof -
  from assms obtain d es where g: "(d, es) \<in> set (group_by_date rows)" and r: "r = select_row d es"
    by (auto simp: trend_query_set)
  from group_by_date_members [OF g] r show ?thesis
    by (simp add: select_row_date)
qed

section \<open>What a successful trend request returns\<close>

lemma datetime_sub_Inr: "datetime_sub t td = Inr r \<Longrightarrow> r = t - td"
  by (auto simp: datetime_sub_def Let_def split: if_splits)

lemma timedelta_days_Inr: "timedelta_days d = Inr td \<Longrightarrow> td = d * MICROS_PER_DAY"
  by (auto simp: timedelta_days_def split: if_splits)

lemma get_post_trends_Inr:
  assumes "get_post_trends db now pid n = Inr r"
  shows "current_period r = post_current_query db pid (now - n * MICROS_PER_DAY)"
    and "previous_period r =
           post_previous_query db pid (now - n * MICROS_PER_DAY - n * MICROS_PER_DAY) (now - n * MICROS_PER_DAY)"
    and "change_percent r =
           round2 (percent_change (sum_list (map total (current_period r)))
                     (sum_list (map total (previous_period r))))"
  using assms
  by (auto simp: get_post_trends_def get_post_trends_try_def Let_def
           dest!: datetime_sub_Inr timedelta_days_Inr
           split: option.splits sum.splits)

lemma get_author_trends_Inr:
  assumes "get_author_trends db now aid n = Inr r"
  shows "a_current_period r = author_current_query db aid (now - n * MICROS_PER_DAY)"
    and "a_previous_period r =
           author_previous_query db aid (now - n * MICROS_PER_DAY - n * MICROS_PER_DAY) (now - n * MICROS_PER_DAY)"
    and "a_change_percent r =
           round2 (percent_change (sum_list (map total (a_current_period r)))
                     (sum_list (map total (a_previous_period r))))"
  using assms
  by (auto simp: get_author_trends_def get_author_trends_try_def Let_def
           dest!: datetime_sub_Inr timedelta_days_Inr
           split: option.splits sum.splits)

lemma round2_0: "round2 0 = 0"
  by (simp add: round2_def round_half_even_def fl_def)

lemma trend_query_daily_series: "spec_daily_series rows (trend_query rows)"
  unfolding spec_daily_series_def
proof (intro conjI ballI)
  show "distinct (map date (trend_query rows))" by (rule trend_query_distinct)
  show "date ` set (trend_query rows) = day_of ` set rows" by (rule trend_query_date_set)
next
  fix r assume "r \<in> set (trend_query rows)"
  then have r: "r = select_row (date r) (filter (\<lambda>e. day_of e = date r) rows)"
    by (rule trend_query_row)
  have "views r = views (select_row (date r) (filter (\<lambda>e. day_of e = date r) rows))"
    using r by simp
  then show "views r = int (length (filter (\<lambda>e. day_of e = date r \<and> e_type e = ''view'') rows))"
    by (simp add: select_row_def count_filter_def conj_commute)
  have "likes r = likes (select_row (date r) (filter (\<lambda>e. day_of e = date r) rows))"
    using r by simp
  then show "likes r = int (length (filter (\<lambda>e. day_of e = date r \<and> e_type e = ''like'') rows))"
    by (simp add: select_row_def count_filter_def conj_commute)
  have "comments r = comments (select_row (date r) (filter (\<lambda>e. day_of e = date r) rows))"
    using r by simp
  then show "comments r = int (length (filter (\<lambda>e. day_of e = date r \<and> e_type e = ''comment'') rows))"
    by (simp add: select_row_def count_filter_def conj_commute)
  have "shares r = shares (select_row (date r) (filter (\<lambda>e. day_of e = date r) rows))"
    using r by simp
  then show "shares r = int (length (filter (\<lambda>e. day_of e = date r \<and> e_type e = ''share'') rows))"
    by (simp add: select_row_def count_filter_def conj_commute)
  have "total r = total (select_row (date r) (filter (\<lambda>e. day_of e = date r) rows))"
    using r by simp
  then show "total r = int (length (filter (\<lambda>e. day_of e = date r) rows))"
    by (simp add: select_row_def)
qed

text \<open>The rows the two queries of a handler read, in terms of the time of the request.\<close>

lemma post_rows_windows:
  "e \<in> set (post_current_rows db pid (now - n * MICROS_PER_DAY)) \<longleftrightarrow>
     e \<in> set (engagements db) \<and> e_post_id e = pid
     \<and> now - n * MICROS_PER_DAY \<le> e_engaged_timestamp e"
  "e \<in> set (post_previous_rows db pid (now - n * MICROS_PER_DAY - n * MICROS_PER_DAY)
              (now - n * MICROS_PER_DAY)) \<longleftrightarrow>
     e \<in> set (engagements db) \<and> e_post_id e = pid
     \<and> now - 2 * n * MICROS_PER_DAY \<le> e_engaged_timestamp e
     \<and> e_engaged_timestamp e < now - n * MICROS_PER_DAY"
  by (auto simp: post_current_rows_def post_previous_rows_def algebra_simps)

lemma set_join_posts:
  "(e, p) \<in> set (join_posts es ps) \<longleftrightarrow>
     e \<in> set es \<and> p \<in> set ps \<and> e_post_id e = p_post_id p"
  by (auto simp: join_posts_def)

lemma author_rows_windows:
  "e \<in> set (author_current_rows db aid (now - n * MICROS_PER_DAY)) \<longleftrightarrow>
     e \<in> set (engagements db)
     \<and> (\<exists>p \<in> set (posts db). e_post_id e = p_post_id p \<and> p_author_id p = aid)
     \<and> now - n * MICROS_PER_DAY \<le> e_engaged_timestamp e"
  "e \<in> set (author_previous_rows db aid (now - n * MICROS_PER_DAY - n * MICROS_PER_DAY)
              (now - n * MICROS_PER_DAY)) \<longleftrightarrow>
     e \<in> set (engagements db)
     \<and> (\<exists>p \<in> set (posts db). e_post_id e = p_post_id p \<and> p_author_id p = aid)
     \<and> now - 2 * n * MICROS_PER_DAY \<le> e_engaged_timestamp e
     \<and> e_engaged_timestamp e < now - n * MICROS_PER_DAY"
  by (force simp: author_current_rows_def author_previous_rows_def set_join_posts image_iff
        algebra_simps)+

text \<open>The handlers on the sample database, seven days back from day 100.\<close>

lemma sample_post_trends:
  "get_post_trends sample_db sample_now 101 7
     = Inr \<lparr>post_id = 101, post_title = ''Hello'',
            current_period =
              [\<lparr>date = 99, views = 1, likes = 1, comments = 0, shares = 0, total = 2\<rparr>,
               \<lparr>date = 101, views = 1, likes = 0, comments = 0, shares = 0, total = 1\<rparr>],
            previous_period =
              [\<lparr>date = 90, views = 1, likes = 0, comments = 0, shares = 0, total = 1\<rparr>,
               \<lparr>date = 92, views = 0, likes = 0, comments = 0, shares = 1, total = 1\<rparr>],
            change_percent = 50\<rparr>"
  by code_simp

lemma sample_author_trends:
  "get_author_trends sample_db sample_now 1 7
     = Inr \<lparr>author_id = 1, author_name = ''Ann'',
            a_current_period =
              [\<lparr>date = 99, views = 1, likes = 1, comments = 0, shares = 0, total = 2\<rparr>,
               \<lparr>date = 101, views = 1, likes = 0, comments = 0, shares = 0, total = 1\<rparr>],
            a_previous_period =
              [\<lparr>date = 90, views = 1, likes = 0, comments = 0, shares = 0, total = 1\<rparr>,
               \<lparr>date = 92, views = 0, likes = 0, comments = 0, shares = 1, total = 1\<rparr>],
            a_change_percent = 50\<rparr>"
  by code_simp

section \<open>Properties of the trend endpoints\<close>

text \<open>
  C1: the current period should count the engagements of \<open>[now - N, now)\<close> and the previous
  period those of \<open>[now - 2N, now - N)\<close>, two windows of equal length. The previous query
  has both bounds; the current query only has \<^verbatim>\<open>engaged_timestamp >= current_start\<close>, so it
  also counts what is dated after the request. On the sample database engagement 2001 is
  dated day 101, after the request at the start of day 100, and both handlers report it
  in \<^verbatim>\<open>current_period\<close>, as the row of day 101.
\<close>

theorem current_period_counts_future_engagements:
  "post_current_rows sample_db 101 (sample_now - 7 * MICROS_PER_DAY)
     = [\<lparr>e_engagement_id = 2001, e_post_id = 101, e_type = ''view'',
          e_engaged_timestamp = 101 * 86400000000\<rparr>,
        \<lparr>e_engagement_id = 2002, e_post_id = 101, e_type = ''like'',
          e_engaged_timestamp = 99 * 86400000000 + 5\<rparr>,
        \<lparr>e_engagement_id = 2003, e_post_id = 101, e_type = ''view'',
          e_engaged_timestamp = 99 * 86400000000 + 7\<rparr>]
   \<and> sample_now < 101 * 86400000000
   \<and> filter (\<lambda>e. e_post_id e = 101
                \<and> sample_now - 7 * MICROS_PER_DAY \<le> e_engaged_timestamp e
                \<and> e_engaged_timestamp e < sample_now)
       (engagements sample_db)
     = [\<lparr>e_engagement_id = 2002, e_post_id = 101, e_type = ''like'',
          e_engaged_timestamp = 99 * 86400000000 + 5\<rparr>,
        \<lparr>e_engagement_id = 2003, e_post_id = 101, e_type = ''view'',
          e_engaged_timestamp = 99 * 86400000000 + 7\<rparr>]
   \<and> get_post_trends sample_db sample_now 101 7
     = Inr \<lparr>post_id = 101, post_title = ''Hello'',
            current_period =
              [\<lparr>date = 99, views = 1, likes = 1, comments = 0, shares = 0, total = 2\<rparr>,
               \<lparr>date = 101, views = 1, likes = 0, comments = 0, shares = 0, total = 1\<rparr>],
            previous_period =
              [\<lparr>date = 90, views = 1, likes = 0, comments = 0, shares = 0, total = 1\<rparr>,
               \<lparr>date = 92, views = 0, likes = 0, comments = 0, shares = 1, total = 1\<rparr>],
            change_percent = 50\<rparr>
   \<and> get_author_trends sample_db sample_now 1 7
     = Inr \<lparr>author_id = 1, author_name = ''Ann'',
            a_current_period =
              [\<lparr>date = 99, views = 1, likes = 1, comments = 0, shares = 0, total = 2\<rparr>,
               \<lparr>date = 101, views = 1, likes = 0, comments = 0, shares = 0, total = 1\<rparr>],
            a_previous_period =
              [\<lparr>date = 90, views = 1, likes = 0, comments = 0, shares = 0, total = 1\<rparr>,
               \<lparr>date = 92, views = 0, likes = 0, comments = 0, shares = 1, total = 1\<rparr>],
            a_change_percent = 50\<rparr>"
  by code_simp

text \<open>
  C2: a trend request for a post (author) that is not in the database should be answered with
  HTTP 404 and never with 500. The handler raises the 404 inside its \<^verbatim>\<open>try\<close> block, where
  \<^verbatim>\<open>except Exception\<close> catches it and raises a 500 in its place: on the sample database,
  post 102 and author 3 do not exist and both requests end with status 500.
\<close>

theorem missing_entity_gives_500:
  "get_post_trends sample_db sample_now 102 7
     = Inl (HTTPException 500 ''404: Post not found'')
   \<and> get_author_trends sample_db sample_now 3 7
     = Inl (HTTPException 500 ''404: Author not found'')"
  by code_simp

text \<open>
  C3: in every trend response, of a post or of an author, a previous period whose totals sum
  to 0 gives \<^verbatim>\<open>change_percent\<close> 0, whatever the current period holds.
\<close>

theorem change_percent_zero_previous:
  "(\<forall>r. get_post_trends db now pid n = Inr r \<longrightarrow>
        sum_list (map total (previous_period r)) = 0 \<longrightarrow> change_percent r = 0)
   \<and> (\<forall>r. get_author_trends db now aid n = Inr r \<longrightarrow>
        sum_list (map total (a_previous_period r)) = 0 \<longrightarrow> a_change_percent r = 0)"
  by (auto simp: get_post_trends_Inr(3) get_author_trends_Inr(3) percent_change_def round2_0)

theorem change_percent_zero_previous_witness:
  "get_post_trends sample_db sample_now 101 1
     = Inr \<lparr>post_id = 101, post_title = ''Hello'',
            current_period =
              [\<lparr>date = 99, views = 1, likes = 1, comments = 0, shares = 0, total = 2\<rparr>,
               \<lparr>date = 101, views = 1, likes = 0, comments = 0, shares = 0, total = 1\<rparr>],
            previous_period = [], change_percent = 0\<rparr>
   \<and> get_author_trends sample_db sample_now 1 1
     = Inr \<lparr>author_id = 1, author_name = ''Ann'',
            a_current_period =
              [\<lparr>date = 99, views = 1, likes = 1, comments = 0, shares = 0, total = 2\<rparr>,
               \<lparr>date = 101, views = 1, likes = 0, comments = 0, shares = 0, total = 1\<rparr>],
            a_previous_period = [], a_change_percent = 0\<rparr>"
proof -
  let ?rows = "[\<lparr>date = 99, views = 1, likes = 1, comments = 0, shares = 0, total = 2\<rparr>,
                \<lparr>date = 101, views = 1, likes = 0, comments = 0, shares = 0, total = 1\<rparr>]"
  let ?r = "\<lparr>post_id = 101, post_title = ''Hello'', current_period = ?rows,
             previous_period = [], change_percent = 0\<rparr>"
  let ?q = "\<lparr>author_id = 1, author_name = ''Ann'', a_current_period = ?rows,
             a_previous_period = [], a_change_percent = 0\<rparr>"
  have r: "get_post_trends sample_db sample_now 101 1 = Inr ?r"
    by code_simp
  have q: "get_author_trends sample_db sample_now 1 1 = Inr ?q"
    by code_simp
  have "change_percent ?r = 0 \<and> a_change_percent ?q = 0"
    using change_percent_zero_previous
            [where db = sample_db and now = sample_now and pid = 101 and n = 1 and aid = 1]
          r q
    by simp
  with r q show ?thesis
    by simp
qed

lemma percent_change_pos:
  "0 < p \<Longrightarrow> percent_change c p = fl (fl (of_int (c - p) / of_int p) * 100)"
  by (simp add: percent_change_def)

lemma change_percent_facts:
  assumes "0 < P"
  shows "round2 (percent_change C P) = round2 (fl (fl (of_int (C - P) / of_int P) * 100))"
    and "\<exists>k. round2 (percent_change C P) = fl (of_int k / 100)"
    and "\<bar>round2 (percent_change C P) - of_int (C - P) / of_int P * 100\<bar>
           \<le> 1 / 200 + (\<bar>of_int (C - P) / of_int P * 100\<bar> + 1) / 1000000000000000"
proof -
  show "round2 (percent_change C P) = round2 (fl (fl (of_int (C - P) / of_int P) * 100))"
    using assms by (simp only: percent_change_pos)
  show "\<exists>k. round2 (percent_change C P) = fl (of_int k / 100)"
    using round2_hundredth [of "percent_change C P"] by blast
  show "\<bar>round2 (percent_change C P) - of_int (C - P) / of_int P * 100\<bar>
           \<le> 1 / 200 + (\<bar>of_int (C - P) / of_int P * 100\<bar> + 1) / 1000000000000000"
    using percent_change_accuracy [of "of_int (C - P) / of_int P"] assms
    by (simp only: percent_change_pos)
qed

lemma percent_change_150_100: "round2 (percent_change 150 100) = 50"
  by code_simp

text \<open>
  C4: in every trend response \<^verbatim>\<open>current_period\<close> and \<^verbatim>\<open>previous_period\<close> sum to the numbers
  \<open>C\<close> and \<open>P\<close> of engagements the two queries read. When \<open>P\<close> is positive,
  \<^verbatim>\<open>change_percent\<close> is \<^verbatim>\<open>round(((C - P) / P) * 100, 2)\<close> as Python's floats compute it: the
  double nearest to a multiple of 1/100, and within 1/200, up to a relative rounding error
  of \<open>10\<^sup>-\<^sup>1\<^sup>5\<close>, of the exact \<open>(C - P) / P * 100\<close>. Totals of 150 and 100 give 50.
\<close>

theorem change_percent_formula:
  "(\<forall>r. get_post_trends db now pid n = Inr r \<longrightarrow>
      (let C = int (length (post_current_rows db pid (now - n * MICROS_PER_DAY)));
           P = int (length (post_previous_rows db pid
                             (now - n * MICROS_PER_DAY - n * MICROS_PER_DAY)
                             (now - n * MICROS_PER_DAY)));
           E = of_int (C - P) / of_int P * 100
       in sum_list (map total (current_period r)) = C
          \<and> sum_list (map total (previous_period r)) = P
          \<and> (0 < P \<longrightarrow>
                change_percent r = round2 (fl (fl (of_int (C - P) / of_int P) * 100))
                \<and> (\<exists>k. change_percent r = fl (of_int k / 100))
                \<and> \<bar>change_percent r - E\<bar> \<le> 1 / 200 + (\<bar>E\<bar> + 1) / 1000000000000000)
          \<and> (C = 150 \<and> P = 100 \<longrightarrow> change_percent r = 50)))
   \<and> (\<forall>r. get_author_trends db now aid n = Inr r \<longrightarrow>
      (let C = int (length (author_current_rows db aid (now - n * MICROS_PER_DAY)));
           P = int (length (author_previous_rows db aid
                             (now - n * MICROS_PER_DAY - n * MICROS_PER_DAY)
                             (now - n * MICROS_PER_DAY)));
           E = of_int (C - P) / of_int P * 100
       in sum_list (map total (a_current_period r)) = C
          \<and> sum_list (map total (a_previous_period r)) = P
          \<and> (0 < P \<longrightarrow>
                a_change_percent r = round2 (fl (fl (of_int (C - P) / of_int P) * 100))
                \<and> (\<exists>k. a_change_percent r = fl (of_int k / 100))
                \<and> \<bar>a_change_percent r - E\<bar> \<le> 1 / 200 + (\<bar>E\<bar> + 1) / 1000000000000000)
          \<and> (C = 150 \<and> P = 100 \<longrightarrow> a_change_percent r = 50)))"
proof (intro conjI allI impI)
  fix r assume r: "get_post_trends db now pid n = Inr r"
  define C where "C = int (length (post_current_rows db pid (now - n * MICROS_PER_DAY)))"
  define P where "P = int (length (post_previous_rows db pid
                             (now - n * MICROS_PER_DAY - n * MICROS_PER_DAY)
                             (now - n * MICROS_PER_DAY)))"
  have c: "sum_list (map total (current_period r)) = C"
    and p: "sum_list (map total (previous_period r)) = P"
    by (simp_all add: get_post_trends_Inr(1,2) [OF r] post_current_query_def
          post_previous_query_def trend_query_total C_def P_def)
  have v: "change_percent r = round2 (percent_change C P)"
    using get_post_trends_Inr(3) [OF r] by (simp only: c p)
  show "let C = int (length (post_current_rows db pid (now - n * MICROS_PER_DAY)));
           P = int (length (post_previous_rows db pid
                             (now - n * MICROS_PER_DAY - n * MICROS_PER_DAY)
                             (now - n * MICROS_PER_DAY)));
           E = of_int (C - P) / of_int P * 100
       in sum_list (map total (current_period r)) = C
          \<and> sum_list (map total (previous_period r)) = P
          \<and> (0 < P \<longrightarrow>
                change_percent r = round2 (fl (fl (of_int (C - P) / of_int P) * 100))
                \<and> (\<exists>k. change_percent r = fl (of_int k / 100))
                \<and> \<bar>change_percent r - E\<bar> \<le> 1 / 200 + (\<bar>E\<bar> + 1) / 1000000000000000)
          \<and> (C = 150 \<and> P = 100 \<longrightarrow> change_percent r = 50)"
    unfolding Let_def C_def [symmetric] P_def [symmetric] v
    using c p change_percent_facts [of P C] percent_change_150_100
    by (auto simp only:)
next
  fix r assume r: "get_author_trends db now aid n = Inr r"
  define C where "C = int (length (author_current_rows db aid (now - n * MICROS_PER_DAY)))"
  define P where "P = int (length (author_previous_rows db aid
                             (now - n * MICROS_PER_DAY - n * MICROS_PER_DAY)
                             (now - n * MICROS_PER_DAY)))"
  have c: "sum_list (map total (a_current_period r)) = C"
    and p: "sum_list (map total (a_previous_period r)) = P"
    by (simp_all add: get_author_trends_Inr(1,2) [OF r] author_current_query_def
          author_previous_query_def trend_query_total C_def P_def)
  have v: "a_change_percent r = round2 (percent_change C P)"
    using get_author_trends_Inr(3) [OF r] by (simp only: c p)
  show "let C = int (length (author_current_rows db aid (now - n * MICROS_PER_DAY)));
           P = int (length (author_previous_rows db aid
                             (now - n * MICROS_PER_DAY - n * MICROS_PER_DAY)
                             (now - n * MICROS_PER_DAY)));
           E = of_int (C - P) / of_int P * 100
       in sum_list (map total (a_current_period r)) = C
          \<and> sum_list (map total (a_previous_period r)) = P
          \<and> (0 < P \<longrightarrow>
                a_change_percent r = round2 (fl (fl (of_int (C - P) / of_int P) * 100))
                \<and> (\<exists>k. a_change_percent r = fl (of_int k / 100))
                \<and> \<bar>a_change_percent r - E\<bar> \<le> 1 / 200 + (\<bar>E\<bar> + 1) / 1000000000000000)
          \<and> (C = 150 \<and> P = 100 \<longrightarrow> a_change_percent r = 50)"
    unfolding Let_def C_def [symmetric] P_def [symmetric] v
    using c p change_percent_facts [of P C] percent_change_150_100
    by (auto simp only:)
qed

theorem change_percent_formula_witness:
  "get_post_trends rounding_db sample_now 101 7
     = Inr \<lparr>post_id = 101, post_title = ''Hello'',
            current_period =
              [\<lparr>date = 95, views = 137, likes = 0, comments = 0, shares = 0, total = 137\<rparr>],
            previous_period =
              [\<lparr>date = 90, views = 160, likes = 0, comments = 0, shares = 0, total = 160\<rparr>],
            change_percent = - (8089590830664253 / 562949953421312)\<rparr>
   \<and> int (length (post_current_rows rounding_db 101 (sample_now - 7 * MICROS_PER_DAY))) = 137
   \<and> int (length (post_previous_rows rounding_db 101
                    (sample_now - 7 * MICROS_PER_DAY - 7 * MICROS_PER_DAY)
                    (sample_now - 7 * MICROS_PER_DAY))) = 160
   \<and> round2 (fl (fl (of_int (137 - 160) / of_int 160) * 100))
       = - (8089590830664253 / 562949953421312)
   \<and> fl (- 1437 / 100) = - (8089590830664253 / 562949953421312)
   \<and> fl (- 1438 / 100) \<noteq> - (8089590830664253 / 562949953421312)
   \<and> get_author_trends busy_db sample_now 1 7
     = Inr \<lparr>author_id = 1, author_name = ''Ann'',
            a_current_period =
              [\<lparr>date = 95, views = 150, likes = 0, comments = 0, shares = 0, total = 150\<rparr>],
            a_previous_period =
              [\<lparr>date = 90, views = 100, likes = 0, comments = 0, shares = 0, total = 100\<rparr>],
            a_change_percent = 50\<rparr>
   \<and> int (length (author_current_rows busy_db 1 (sample_now - 7 * MICROS_PER_DAY))) = 150
   \<and> int (length (author_previous_rows busy_db 1
                    (sample_now - 7 * MICROS_PER_DAY - 7 * MICROS_PER_DAY)
                    (sample_now - 7 * MICROS_PER_DAY))) = 100"
proof -
  have r: "get_post_trends rounding_db sample_now 101 7
     = Inr \<lparr>post_id = 101, post_title = ''Hello'',
            current_period =
              [\<lparr>date = 95, views = 137, likes = 0, comments = 0, shares = 0, total = 137\<rparr>],
            previous_period =
              [\<lparr>date = 90, views = 160, likes = 0, comments = 0, shares = 0, total = 160\<rparr>],
            change_percent = - (8089590830664253 / 562949953421312)\<rparr>"
    by code_simp
  have q: "get_author_trends busy_db sample_now 1 7
     = Inr \<lparr>author_id = 1, author_name = ''Ann'',
            a_current_period =
              [\<lparr>date = 95, views = 150, likes = 0, comments = 0, shares = 0, total = 150\<rparr>],
            a_previous_period =
              [\<lparr>date = 90, views = 100, likes = 0, comments = 0, shares = 0, total = 100\<rparr>],
            a_change_percent = 50\<rparr>"
    by code_simp
  have f: "fl (- 1437 / 100) = - (8089590830664253 / 562949953421312)"
    "fl (- 1438 / 100) \<noteq> - (8089590830664253 / 562949953421312)"
    by code_simp+
  note post = change_percent_formula
         [where db = rounding_db and now = sample_now and pid = 101 and n = 7,
          THEN conjunct1, rule_format, OF r, unfolded Let_def]
  note auth = change_percent_formula
         [where db = busy_db and now = sample_now and n = 7 and aid = 1,
          THEN conjunct2, rule_format, OF q, unfolded Let_def]
  have c: "int (length (post_current_rows rounding_db 101 (sample_now - 7 * MICROS_PER_DAY)))
             = 137"
    using post [THEN conjunct1] by simp
  have p: "int (length (post_previous_rows rounding_db 101
                    (sample_now - 7 * MICROS_PER_DAY - 7 * MICROS_PER_DAY)
                    (sample_now - 7 * MICROS_PER_DAY))) = 160"
    using post [THEN conjunct2, THEN conjunct1] by simp
  have "(0::int) < 160" by simp
  from post [THEN conjunct2, THEN conjunct2, THEN conjunct1, unfolded c p, rule_format,
             OF this, THEN conjunct1]
  have v: "round2 (fl (fl (of_int (137 - 160) / of_int 160) * 100))
             = - (8089590830664253 / 562949953421312)"
    by (simp only: PostTrendsResponse.select_convs)
  have ca: "int (length (author_current_rows busy_db 1 (sample_now - 7 * MICROS_PER_DAY)))
              = 150"
    using auth [THEN conjunct1] by simp
  have pa: "int (length (author_previous_rows busy_db 1
                    (sample_now - 7 * MICROS_PER_DAY - 7 * MICROS_PER_DAY)
                    (sample_now - 7 * MICROS_PER_DAY))) = 100"
    using auth [THEN conjunct2, THEN conjunct1] by simp
  from r q f c p v ca pa show ?thesis
    by (intro conjI)
qed

text \<open>
  Each period is the daily series of the rows its query selects.
\<close>

lemma periods_series_of_selected_rows:
  "(\<forall>r. get_post_trends db now pid n = Inr r \<longrightarrow>
        spec_daily_series (post_current_rows db pid (now - n * MICROS_PER_DAY))
          (current_period r)
        \<and> spec_daily_series
            (post_previous_rows db pid (now - n * MICROS_PER_DAY - n * MICROS_PER_DAY)
               (now - n * MICROS_PER_DAY))
            (previous_period r))
   \<and> (\<forall>r. get_author_trends db now aid n = Inr r \<longrightarrow>
        spec_daily_series (author_current_rows db aid (now - n * MICROS_PER_DAY))
          (a_current_period r)
        \<and> spec_daily_series
            (author_previous_rows db aid (now - n * MICROS_PER_DAY - n * MICROS_PER_DAY)
               (now - n * MICROS_PER_DAY))
            (a_previous_period r))"
  by (simp add: get_post_trends_Inr(1,2) get_author_trends_Inr(1,2)
        post_current_query_def post_previous_query_def
        author_current_query_def author_previous_query_def trend_query_daily_series)

text \<open>
  C6: each period should hold one row for every day on which the entity has an engagement in
  the window of the period, and no row for any other day. The previous period does. The
  current query has no upper bound (see C1): on the sample database, for a request at the
  start of day 100 over 7 days, post 101 (the one post of author 1) has engagements within
  \<open>[now - 7, now)\<close> on day 99 only, and both handlers return a second row, for day 101.
\<close>

theorem current_period_has_row_outside_window:
  "get_post_trends sample_db sample_now 101 7
     = Inr \<lparr>post_id = 101, post_title = ''Hello'',
            current_period =
              [\<lparr>date = 99, views = 1, likes = 1, comments = 0, shares = 0, total = 2\<rparr>,
               \<lparr>date = 101, views = 1, likes = 0, comments = 0, shares = 0, total = 1\<rparr>],
            previous_period =
              [\<lparr>date = 90, views = 1, likes = 0, comments = 0, shares = 0, total = 1\<rparr>,
               \<lparr>date = 92, views = 0, likes = 0, comments = 0, shares = 1, total = 1\<rparr>],
            change_percent = 50\<rparr>
   \<and> map day_of
         (filter (\<lambda>e. e_post_id e = 101 \<and> spec_current_window sample_now 7 e)
            (engagements sample_db))
       = [99, 99]
   \<and> map day_of
         (filter (\<lambda>e. e_post_id e = 101 \<and> spec_previous_window sample_now 7 e)
            (engagements sample_db))
       = [90, 92]
   \<and> get_author_trends sample_db sample_now 1 7
     = Inr \<lparr>author_id = 1, author_name = ''Ann'',
            a_current_period =
              [\<lparr>date = 99, views = 1, likes = 1, comments = 0, shares = 0, total = 2\<rparr>,
               \<lparr>date = 101, views = 1, likes = 0, comments = 0, shares = 0, total = 1\<rparr>],
            a_previous_period =
              [\<lparr>date = 90, views = 1, likes = 0, comments = 0, shares = 0, total = 1\<rparr>,
               \<lparr>date = 92, views = 0, likes = 0, comments = 0, shares = 1, total = 1\<rparr>],
            a_change_percent = 50\<rparr>
   \<and> map day_of
         (filter (spec_current_window sample_now 7)
            (map fst (filter (\<lambda>(e, p). p_author_id p = 1)
                        (join_posts (engagements sample_db) (posts sample_db)))))
       = [99, 99]
   \<and> map day_of
         (filter (spec_previous_window sample_now 7)
            (map fst (filter (\<lambda>(e, p). p_author_id p = 1)
                        (join_posts (engagements sample_db) (posts sample_db)))))
       = [90, 92]"
  by code_simp

text \<open>
  C10: in every trend response, of a post or of an author, the dates of the rows of the
  current period and those of the previous period are strictly increasing.
\<close>

theorem periods_strictly_increasing:
  "(\<forall>r. get_post_trends db now pid n = Inr r \<longrightarrow>
        sorted_wrt (<) (map date (current_period r))
        \<and> sorted_wrt (<) (map date (previous_period r)))
   \<and> (\<forall>r. get_author_trends db now aid n = Inr r \<longrightarrow>
        sorted_wrt (<) (map date (a_current_period r))
        \<and> sorted_wrt (<) (map date (a_previous_period r)))"
  by (simp add: get_post_trends_Inr(1,2) get_author_trends_Inr(1,2)
        post_current_query_def post_previous_query_def
        author_current_query_def author_previous_query_def trend_query_strict)

theorem periods_strictly_increasing_witness:
  "get_post_trends sample_db sample_now 101 7
     = Inr \<lparr>post_id = 101, post_title = ''Hello'',
            current_period =
              [\<lparr>date = 99, views = 1, likes = 1, comments = 0, shares = 0, total = 2\<rparr>,
               \<lparr>date = 101, views = 1, likes = 0, comments = 0, shares = 0, total = 1\<rparr>],
            previous_period =
              [\<lparr>date = 90, views = 1, likes = 0, comments = 0, shares = 0, total = 1\<rparr>,
               \<lparr>date = 92, views = 0, likes = 0, comments = 0, shares = 1, total = 1\<rparr>],
            change_percent = 50\<rparr>
   \<and> sorted_wrt (<) [99, 101 :: int] \<and> sorted_wrt (<) [90, 92 :: int]
   \<and> get_author_trends sample_db sample_now 1 7
     = Inr \<lparr>author_id = 1, author_name = ''Ann'',
            a_current_period =
              [\<lparr>date = 99, views = 1, likes = 1, comments = 0, shares = 0, total = 2\<rparr>,
               \<lparr>date = 101, views = 1, likes = 0, comments = 0, shares = 0, total = 1\<rparr>],
            a_previous_period =
              [\<lparr>date = 90, views = 1, likes = 0, comments = 0, shares = 0, total = 1\<rparr>,
               \<lparr>date = 92, views = 0, likes = 0, comments = 0, shares = 1, total = 1\<rparr>],
            a_change_percent = 50\<rparr>"
  using periods_strictly_increasing
          [where db = sample_db and now = sample_now and pid = 101 and n = 7 and aid = 1]
        sample_post_trends sample_author_trends
  by simp

section \<open>Properties of the summary endpoint\<close>

lemma or_zero_id: "or_zero x = x"
  by (simp add: or_zero_def)

lemma get_analytics_summary_Inr:
  assumes "get_analytics_summary db now n = Inr s"
  shows "total_authors s
           = count_distinct (map col_author_id (summary_rows db (now - n * MICROS_PER_DAY)))"
    and "total_posts s
           = count_distinct (map col_post_id (summary_rows db (now - n * MICROS_PER_DAY)))"
    and "total_engagements s
           = count_not_null (map col_engagement_id (summary_rows db (now - n * MICROS_PER_DAY)))"
    and "total_views s = count_type ''view'' (summary_rows db (now - n * MICROS_PER_DAY))"
    and "total_likes s = count_type ''like'' (summary_rows db (now - n * MICROS_PER_DAY))"
    and "total_comments s = count_type ''comment'' (summary_rows db (now - n * MICROS_PER_DAY))"
    and "total_shares s = count_type ''share'' (summary_rows db (now - n * MICROS_PER_DAY))"
    and "avg_engagement_per_post s
           = fl (or_zero_numeric (sql_avg (total_engagements s) (nullif0 (total_posts s))))"
  using assms
  by (auto simp: get_analytics_summary_def get_analytics_summary_try_def Let_def or_zero_id
           dest!: datetime_sub_Inr timedelta_days_Inr
           split: sum.splits)

lemma summary_where_mono:
  "s2 \<le> s1 \<Longrightarrow> summary_where s1 row \<Longrightarrow> summary_where s2 row"
  by (auto simp: summary_where_def split: option.splits)

lemma summary_rows_mono:
  assumes "s2 \<le> s1"
  shows "summary_rows db s1 = filter (summary_where s1) (summary_rows db s2)"
proof -
  have "(summary_where s2 row \<and> summary_where s1 row) = summary_where s1 row" for row
    using summary_where_mono [OF assms] by blast
  then show ?thesis
    by (simp add: summary_rows_def)
qed

lemma count_distinct_filter_le:
  "count_distinct (map f (filter P xs)) \<le> count_distinct (map f xs)"
proof -
  have "set (filter (\<lambda>v. v \<noteq> None) (map f (filter P xs)))
          \<subseteq> set (filter (\<lambda>v. v \<noteq> None) (map f xs))"
    by auto
  then have "card (set (filter (\<lambda>v. v \<noteq> None) (map f (filter P xs))))
          \<le> card (set (filter (\<lambda>v. v \<noteq> None) (map f xs)))"
    by (rule card_mono [rotated]) simp
  then show ?thesis
    by (simp add: count_distinct_def length_remdups_card_conv)
qed

lemma length_filter_mono:
  "(\<And>x. P x \<Longrightarrow> Q x) \<Longrightarrow> length (filter P xs) \<le> length (filter Q xs)"
  by (induction xs) auto

lemma count_not_null_filter_le:
  "count_not_null (map f (filter P xs)) \<le> count_not_null (map f xs)"
proof -
  have "length (filter (\<lambda>x. P x \<and> f x \<noteq> None) xs) \<le> length (filter (\<lambda>x. f x \<noteq> None) xs)"
    by (rule length_filter_mono) simp
  then show ?thesis
    by (simp add: count_not_null_def filter_map comp_def conj_commute)
qed

lemma count_type_filter_le: "count_type ty (filter P xs) \<le> count_type ty xs"
proof -
  have "length (filter (\<lambda>x. P x \<and> col_type x = Some ty) xs)
          \<le> length (filter (\<lambda>x. col_type x = Some ty) xs)"
    by (rule length_filter_mono) simp
  then show ?thesis
    by (simp add: count_type_def conj_commute)
qed

lemma join_posts_inner:
  "(a, po) \<in> set (if ms = [] then [(a', None)] else map (\<lambda>p. (a', Some p)) ms) \<longleftrightarrow>
     a = a' \<and> (case po of None \<Rightarrow> ms = [] | Some p \<Rightarrow> p \<in> set ms)"
  by (cases po) auto

lemma set_left_join_posts:
  "(a, po) \<in> set (left_join_posts as ps) \<longleftrightarrow>
     a \<in> set as
     \<and> (case po of None \<Rightarrow> \<forall>p \<in> set ps. p_author_id p \<noteq> a_author_id a
         | Some p \<Rightarrow> p \<in> set ps \<and> p_author_id p = a_author_id a)"
proof -
  have "(a, po) \<in> set (left_join_posts as ps) \<longleftrightarrow>
        a \<in> set as \<and> (case po of None \<Rightarrow> filter (\<lambda>p. a_author_id a = p_author_id p) ps = []
                        | Some p \<Rightarrow> p \<in> set (filter (\<lambda>p. a_author_id a = p_author_id p) ps))"
    unfolding left_join_posts_def Let_def set_concat set_map
    by (simp only: UN_iff image_iff join_posts_inner bex_simps) blast
  also have "\<dots> \<longleftrightarrow> a \<in> set as
     \<and> (case po of None \<Rightarrow> \<forall>p \<in> set ps. p_author_id p \<noteq> a_author_id a
         | Some p \<Rightarrow> p \<in> set ps \<and> p_author_id p = a_author_id a)"
    by (cases po) (auto simp: filter_empty_conv)
  finally show ?thesis .
qed

lemma join_engagements_inner:
  "(\<exists>eo. (a, po, eo) \<in> set (if ms = [] then [(a', po', None)] else map (\<lambda>e. (a', po', Some e)) ms))
     \<longleftrightarrow> a = a' \<and> po = po'"
  by (cases ms) auto

lemma set_left_join_engagements:
  "(\<exists>eo. (a, po, eo) \<in> set (left_join_engagements rows es)) \<longleftrightarrow> (a, po) \<in> set rows"
proof -
  have "(\<exists>eo. (a, po, eo) \<in> set (left_join_engagements rows es)) \<longleftrightarrow>
        (\<exists>row \<in> set rows. \<exists>eo. (a, po, eo) \<in> set (case row of (a', po') \<Rightarrow>
           (let ms = (case po' of None \<Rightarrow> []
                      | Some p \<Rightarrow> filter (\<lambda>e. p_post_id p = e_post_id e) es)
            in if ms = [] then [(a', po', None)] else map (\<lambda>e. (a', po', Some e)) ms)))"
    unfolding left_join_engagements_def set_concat set_map by blast
  also have "\<dots> \<longleftrightarrow> (\<exists>row \<in> set rows. row = (a, po))"
    by (simp only: Let_def split_beta join_engagements_inner) (metis prod.collapse fst_conv snd_conv)
  finally show ?thesis by simp
qed

lemma summary_where_post:
  "summary_where start_date (a, po, eo) \<longleftrightarrow>
     (case po of None \<Rightarrow> True
      | Some p \<Rightarrow> (case p_publish_timestamp p of None \<Rightarrow> True | Some t \<Rightarrow> start_date \<le> t))"
  by (cases po) (simp_all add: summary_where_def)

lemma summary_rows_authors:
  "(\<exists>po eo. (a, po, eo) \<in> set (summary_rows db start_date)) \<longleftrightarrow>
     a \<in> set (authors db) \<and> spec_author_counted db start_date a"
proof -
  have "(\<exists>po eo. (a, po, eo) \<in> set (summary_rows db start_date)) \<longleftrightarrow>
        (\<exists>po. (\<exists>eo. (a, po, eo) \<in> set (left_join_engagements
                  (left_join_posts (authors db) (posts db)) (engagements db)))
              \<and> summary_where start_date (a, po, None))"
    by (auto simp: summary_rows_def summary_where_post)
  also have "\<dots> \<longleftrightarrow> (\<exists>po. (a, po) \<in> set (left_join_posts (authors db) (posts db))
                          \<and> summary_where start_date (a, po, None))"
    by (simp only: set_left_join_engagements)
  also have "\<dots> \<longleftrightarrow> a \<in> set (authors db) \<and> spec_author_counted db start_date a"
  proof
    assume "\<exists>po. (a, po) \<in> set (left_join_posts (authors db) (posts db))
                 \<and> summary_where start_date (a, po, None)"
    then obtain po where po: "(a, po) \<in> set (left_join_posts (authors db) (posts db))"
      and w: "summary_where start_date (a, po, None)"
      by blast
    show "a \<in> set (authors db) \<and> spec_author_counted db start_date a"
    proof (cases po)
      case None
      with po show ?thesis
        by (simp add: set_left_join_posts spec_author_counted_def)
    next
      case (Some p)
      with po w have "p \<in> set (posts db)" "p_author_id p = a_author_id a"
        "case p_publish_timestamp p of None \<Rightarrow> True | Some t \<Rightarrow> start_date \<le> t"
        "a \<in> set (authors db)"
        by (simp_all add: set_left_join_posts summary_where_post)
      then show ?thesis
        unfolding spec_author_counted_def by blast
    qed
  next
    assume r: "a \<in> set (authors db) \<and> spec_author_counted db start_date a"
    then consider "\<forall>p \<in> set (posts db). p_author_id p \<noteq> a_author_id a"
      | p where "p \<in> set (posts db)" "p_author_id p = a_author_id a"
          "case p_publish_timestamp p of None \<Rightarrow> True | Some t \<Rightarrow> start_date \<le> t"
      unfolding spec_author_counted_def by blast
    then show "\<exists>po. (a, po) \<in> set (left_join_posts (authors db) (posts db))
                 \<and> summary_where start_date (a, po, None)"
    proof cases
      case 1
      with r have "(a, None) \<in> set (left_join_posts (authors db) (posts db))
                 \<and> summary_where start_date (a, None, None)"
        by (simp add: set_left_join_posts summary_where_post)
      then show ?thesis by blast
    next
      case 2
      with r have "(a, Some p) \<in> set (left_join_posts (authors db) (posts db))
                 \<and> summary_where start_date (a, Some p, None)"
        by (simp add: set_left_join_posts summary_where_post)
      then show ?thesis by blast
    qed
  qed
  finally show ?thesis .
qed

lemma summary_author_ids:
  "Option.these (set (map col_author_id (summary_rows db start_date)))
     = a_author_id ` {a \<in> set (authors db). spec_author_counted db start_date a}"
proof -
  have "Option.these (set (map col_author_id (summary_rows db start_date)))
          = a_author_id ` {a. \<exists>po eo. (a, po, eo) \<in> set (summary_rows db start_date)}"
    by (force simp: Option.these_def image_iff)
  then show ?thesis
    by (simp only: summary_rows_authors)
qed

lemma count_distinct_card: "count_distinct vs = int (card (Option.these (set vs)))"
proof -
  have "set (filter (\<lambda>v. v \<noteq> None) vs) = Some ` Option.these (set vs)"
    by (force simp: Option.these_def image_iff)
  then have "card (set (filter (\<lambda>v. v \<noteq> None) vs)) = card (Option.these (set vs))"
    by (simp add: card_image)
  then show ?thesis
    by (simp add: count_distinct_def length_remdups_card_conv)
qed

lemma summary_rows_where:
  "row \<in> set (summary_rows db start_date) \<Longrightarrow>
     row_publish_timestamp row = None
     \<or> (\<exists>t. row_publish_timestamp row = Some t \<and> start_date \<le> t)"
  by (auto simp: summary_rows_def summary_where_def split: option.splits)

text \<open>The handler on the sample database, 7 and 30 days back from day 100.\<close>

lemma sample_summary_7:
  "get_analytics_summary sample_db sample_now 7
     = Inr \<lparr>total_authors = 1, total_posts = 0, total_engagements = 0, total_views = 0,
            total_likes = 0, total_comments = 0, total_shares = 0,
            avg_engagement_per_post = 0\<rparr>"
  by code_simp

lemma sample_summary_30:
  "get_analytics_summary sample_db sample_now 30
     = Inr \<lparr>total_authors = 2, total_posts = 1, total_engagements = 5, total_views = 3,
            total_likes = 1, total_comments = 0, total_shares = 1,
            avg_engagement_per_post = 5\<rparr>"
  by code_simp

text \<open>
  C5: for one database and one time of request, a summary over \<open>n2\<close> days reports counts
  that are no smaller than those of a summary over \<open>n1 \<le> n2\<close> days, field by field.
\<close>

theorem summary_totals_monotone:
  assumes "get_analytics_summary db now n1 = Inr s1"
    and "get_analytics_summary db now n2 = Inr s2"
    and "n1 \<le> n2"
  shows "total_authors s1 \<le> total_authors s2 \<and> total_posts s1 \<le> total_posts s2
         \<and> total_engagements s1 \<le> total_engagements s2
         \<and> total_views s1 \<le> total_views s2 \<and> total_likes s1 \<le> total_likes s2
         \<and> total_comments s1 \<le> total_comments s2 \<and> total_shares s1 \<le> total_shares s2"
proof -
  have "now - n2 * MICROS_PER_DAY \<le> now - n1 * MICROS_PER_DAY"
    using assms(3) by (simp add: MICROS_PER_DAY_def)
  then have rows: "summary_rows db (now - n1 * MICROS_PER_DAY)
      = filter (summary_where (now - n1 * MICROS_PER_DAY))
          (summary_rows db (now - n2 * MICROS_PER_DAY))"
    by (rule summary_rows_mono)
  show ?thesis
    unfolding get_analytics_summary_Inr(1-7) [OF assms(1)]
              get_analytics_summary_Inr(1-7) [OF assms(2)]
    by (subst rows)+
       (simp add: count_distinct_filter_le count_not_null_filter_le count_type_filter_le)
qed

theorem summary_totals_monotone_witness:
  "get_analytics_summary sample_db sample_now 7
     = Inr \<lparr>total_authors = 1, total_posts = 0, total_engagements = 0, total_views = 0,
            total_likes = 0, total_comments = 0, total_shares = 0,
            avg_engagement_per_post = 0\<rparr>
   \<and> get_analytics_summary sample_db sample_now 30
     = Inr \<lparr>total_authors = 2, total_posts = 1, total_engagements = 5, total_views = 3,
            total_likes = 1, total_comments = 0, total_shares = 1,
            avg_engagement_per_post = 5\<rparr>
   \<and> (7 :: int) \<le> 30
   \<and> (1 :: int) \<le> 2 \<and> (0 :: int) \<le> 1 \<and> (0 :: int) \<le> 5 \<and> (0 :: int) \<le> 3"
  using summary_totals_monotone [OF sample_summary_7 sample_summary_30]
        sample_summary_7 sample_summary_30
  by simp

text \<open>
  C7: in every summary response \<^verbatim>\<open>total_posts\<close> is the number of distinct posts among the
  rows selected; when it is 0 the divisor \<^verbatim>\<open>NULLIF(..., 0)\<close> is NULL, no division takes place
  and \<^verbatim>\<open>avg_engagement_per_post\<close> is 0.
\<close>

theorem avg_zero_without_posts:
  "\<forall>s. get_analytics_summary db now n = Inr s \<longrightarrow>
     total_posts s
       = count_distinct (map col_post_id (summary_rows db (now - n * MICROS_PER_DAY)))
     \<and> (total_posts s = 0 \<longrightarrow>
          nullif0 (total_posts s) = None \<and> avg_engagement_per_post s = 0)"
  by (auto simp: get_analytics_summary_Inr(2) get_analytics_summary_Inr(8) nullif0_def
        sql_avg_def or_zero_numeric_def fl_def)

theorem avg_zero_without_posts_witness:
  "get_analytics_summary sample_db sample_now 7
     = Inr \<lparr>total_authors = 1, total_posts = 0, total_engagements = 0, total_views = 0,
            total_likes = 0, total_comments = 0, total_shares = 0,
            avg_engagement_per_post = 0\<rparr>
   \<and> count_distinct (map col_post_id (summary_rows sample_db (sample_now - 7 * MICROS_PER_DAY)))
       = 0
   \<and> nullif0 0 = None"
  using avg_zero_without_posts [where db = sample_db and now = sample_now and n = 7]
        sample_summary_7
  by simp

text \<open>
  C9: in every summary response \<^verbatim>\<open>total_authors\<close> is the number of author ids among the
  rows selected. The id of an author without any post is among them; the id of an author who
  has posts, all published before the start of the window, is not; and every row selected has
  a publish timestamp that is NULL or not before the start of the window.
\<close>

theorem total_authors_counts:
  "\<forall>s. get_analytics_summary db now n = Inr s \<longrightarrow>
     (let start_date = now - n * MICROS_PER_DAY;
          ids = Option.these (set (map col_author_id (summary_rows db start_date)))
      in total_authors s = int (card ids)
         \<and> (\<forall>a \<in> set (authors db).
               (\<forall>p \<in> set (posts db). p_author_id p \<noteq> a_author_id a) \<longrightarrow> a_author_id a \<in> ids)
         \<and> (\<forall>a \<in> set (authors db).
               (\<exists>p \<in> set (posts db). p_author_id p = a_author_id a)
               \<and> (\<forall>p \<in> set (posts db). p_author_id p = a_author_id a \<longrightarrow>
                     (\<exists>t. p_publish_timestamp p = Some t \<and> t < start_date))
               \<longrightarrow> a_author_id a \<notin> ids)
         \<and> (\<forall>row \<in> set (summary_rows db start_date).
               row_publish_timestamp row = None
               \<or> (\<exists>t. row_publish_timestamp row = Some t \<and> start_date \<le> t)))"
proof (intro allI impI)
  fix s assume s: "get_analytics_summary db now n = Inr s"
  define start_date where "start_date = now - n * MICROS_PER_DAY"
  define ids where "ids = Option.these (set (map col_author_id (summary_rows db start_date)))"
  have ids: "ids = a_author_id ` {a \<in> set (authors db). spec_author_counted db start_date a}"
    unfolding ids_def by (rule summary_author_ids)
  have 1: "total_authors s = int (card ids)"
    using get_analytics_summary_Inr(1) [OF s]
    by (simp add: count_distinct_card ids_def start_date_def)
  have 2: "a_author_id a \<in> ids"
    if "a \<in> set (authors db)" "\<forall>p \<in> set (posts db). p_author_id p \<noteq> a_author_id a" for a
    using that unfolding ids by (auto simp: spec_author_counted_def)
  have 3: "a_author_id a \<notin> ids"
    if "\<exists>p \<in> set (posts db). p_author_id p = a_author_id a"
       "\<forall>p \<in> set (posts db). p_author_id p = a_author_id a \<longrightarrow>
              (\<exists>t. p_publish_timestamp p = Some t \<and> t < start_date)" for a
  proof
    assume "a_author_id a \<in> ids"
    then obtain a' where a': "a_author_id a' = a_author_id a" "spec_author_counted db start_date a'"
      unfolding ids by auto
    from a' that(1) obtain p where p: "p \<in> set (posts db)" "p_author_id p = a_author_id a"
      "case p_publish_timestamp p of None \<Rightarrow> True | Some t \<Rightarrow> start_date \<le> t"
      unfolding spec_author_counted_def by auto
    from that(2) p(1,2) obtain t where "p_publish_timestamp p = Some t" "t < start_date"
      by blast
    with p(3) show False by simp
  qed
  have 4: "row_publish_timestamp row = None
               \<or> (\<exists>t. row_publish_timestamp row = Some t \<and> start_date \<le> t)"
    if "row \<in> set (summary_rows db start_date)" for row
    using that by (rule summary_rows_where)
  from 1 2 3 4 show "let start_date = now - n * MICROS_PER_DAY;
          ids = Option.these (set (map col_author_id (summary_rows db start_date)))
      in total_authors s = int (card ids)
         \<and> (\<forall>a \<in> set (authors db).
               (\<forall>p \<in> set (posts db). p_author_id p \<noteq> a_author_id a) \<longrightarrow> a_author_id a \<in> ids)
         \<and> (\<forall>a \<in> set (authors db).
               (\<exists>p \<in> set (posts db). p_author_id p = a_author_id a)
               \<and> (\<forall>p \<in> set (posts db). p_author_id p = a_author_id a \<longrightarrow>
                     (\<exists>t. p_publish_timestamp p = Some t \<and> t < start_date))
               \<longrightarrow> a_author_id a \<notin> ids)
         \<and> (\<forall>row \<in> set (summary_rows db start_date).
               row_publish_timestamp row = None
               \<or> (\<exists>t. row_publish_timestamp row = Some t \<and> start_date \<le> t))"
    unfolding Let_def ids_def [symmetric] start_date_def [symmetric]
    by blast
qed

theorem total_authors_counts_witness:
  "get_analytics_summary sample_db sample_now 7
     = Inr \<lparr>total_authors = 1, total_posts = 0, total_engagements = 0, total_views = 0,
            total_likes = 0, total_comments = 0, total_shares = 0,
            avg_engagement_per_post = 0\<rparr>
   \<and> 2 \<in> Option.these (set (map col_author_id
                (summary_rows sample_db (sample_now - 7 * MICROS_PER_DAY))))
   \<and> 1 \<notin> Option.these (set (map col_author_id
                (summary_rows sample_db (sample_now - 7 * MICROS_PER_DAY))))"
proof -
  have db: "authors sample_db = [\<lparr>a_author_id = 1, a_name = ''Ann''\<rparr>, \<lparr>a_author_id = 2, a_name = ''Bob''\<rparr>]"
    "posts sample_db = [\<lparr>p_post_id = 101, p_author_id = 1, p_title = ''Hello'',
                 p_publish_timestamp = Some (90 * 86400000000)\<rparr>]"
    by (simp_all add: sample_db_def)
  have "(90 * 86400000000 :: int) < sample_now - 7 * MICROS_PER_DAY"
    by (simp add: sample_now_def MICROS_PER_DAY_def)
  then show ?thesis
    using total_authors_counts [where db = sample_db and now = sample_now and n = 7]
        sample_summary_7 db
    by (simp add: Let_def)
qed

section \<open>Properties of the dataset generator\<close>

text \<open>
  What the generator guarantees: the engagement is dated from three hours before the publish
  time to 720 hours after it; and with a lag drawn below 2 hours and an adjustment of -3
  hours it is dated before the publish time.
\<close>

lemma timedelta_hours_of_int: "timedelta_hours (of_int k) = k * 3600000000"
proof -
  have "trunc (of_int k) = k"
    by (simp add: trunc_def)
  then show ?thesis
    by (simp add: timedelta_hours_def fl_def round_half_even_of_int [of "k * 3600000000", simplified])
qed

lemma timedelta_hours_bounds:
  assumes "0 \<le> h"
  shows "0 \<le> timedelta_hours h" and "timedelta_hours h \<le> (\<lfloor>h\<rfloor> + 1) * 3600000000 + 1"
proof -
  define f where "f = h - of_int \<lfloor>h\<rfloor>"
  define y where "y = f * 3600000000"
  have t: "timedelta_hours h = round_half_even (of_int (\<lfloor>h\<rfloor> * 3600000000) + fl y)"
    using assms by (simp add: timedelta_hours_def trunc_def f_def y_def Let_def)
  have f: "0 \<le> f" "f < 1"
    unfolding f_def by linarith+
  then have y: "0 \<le> y" "y < 3600000000"
    by (simp_all add: y_def)
  have i: "0 \<le> \<lfloor>h\<rfloor>" using assms by simp
  have "(of_int 0 :: rat) \<le> of_int (\<lfloor>h\<rfloor> * 3600000000) + fl y"
    using i fl_nonneg [OF y(1)] by simp
  then show "0 \<le> timedelta_hours h"
    unfolding t by (rule round_half_even_lower)
  have "y * pow2 (- 53) \<le> 3600000000 * (1 / 8000000000000000)"
    using y pow2_small(1) by (intro mult_mono) (simp_all add: order_less_imp_le)
  moreover have "fl y - y \<le> y * pow2 (- 53) + pow2 (- 1075)"
    using fl_error_bound [of y] y(1) by (simp add: abs_le_iff)
  ultimately have "fl y \<le> 3600000000 + 1"
    using y(2) pow2_small(2) by simp
  then have "of_int (\<lfloor>h\<rfloor> * 3600000000) + fl y
               \<le> of_int ((\<lfloor>h\<rfloor> + 1) * 3600000000 + 1)"
    by (simp add: algebra_simps)
  then show "timedelta_hours h \<le> (\<lfloor>h\<rfloor> + 1) * 3600000000 + 1"
    unfolding t by (rule round_half_even_upper)
qed

lemma generated_lag_bounds:
  assumes "possible_draw ps (pid, publish_time) ty expo adj"
  shows "publish_time - 3 * 3600000000
           \<le> g_engaged_timestamp (generate_engagement i (pid, publish_time) ty uid expo adj)"
    and "g_engaged_timestamp (generate_engagement i (pid, publish_time) ty uid expo adj)
           \<le> publish_time + 720 * 3600000000"
proof -
  from assms have e: "0 \<le> expo" "expo \<le> 368" and a: "-3 \<le> adj" "adj \<le> 3"
    by (auto simp: possible_draw_def hour_adjustments_def EXPOVARIATE_MAX_def)
  define h where "h = min expo MAX_LAG_HOURS"
  have h: "0 \<le> h" "h \<le> 368"
    using e by (simp_all add: h_def MAX_LAG_HOURS_def)
  then have "\<lfloor>h\<rfloor> \<le> \<lfloor>368 :: rat\<rfloor>"
    by (intro floor_mono)
  then have "\<lfloor>h\<rfloor> + 1 \<le> 369"
    by simp
  then have "(\<lfloor>h\<rfloor> + 1) * 3600000000 \<le> 369 * 3600000000"
    by (rule mult_right_mono) simp
  then have "(\<lfloor>h\<rfloor> + 1) * 3600000000 + 1 \<le> 369 * 3600000000 + 1"
    by (rule add_right_mono)
  with timedelta_hours_bounds [OF h(1)]
  have t: "0 \<le> timedelta_hours h" "timedelta_hours h \<le> 369 * 3600000000 + 1"
    by (blast intro: order_trans)+
  have g: "g_engaged_timestamp (generate_engagement i (pid, publish_time) ty uid expo adj)
             = publish_time + timedelta_hours h + adj * 3600000000"
    by (simp add: generate_engagement_def Let_def h_def timedelta_hours_of_int)
  show "publish_time - 3 * 3600000000
           \<le> g_engaged_timestamp (generate_engagement i (pid, publish_time) ty uid expo adj)"
    unfolding g using t(1) a(1) by simp
  show "g_engaged_timestamp (generate_engagement i (pid, publish_time) ty uid expo adj)
           \<le> publish_time + 720 * 3600000000"
    unfolding g using t(2) a(2) by simp
qed

lemma engaged_before_publish:
  assumes "possible_draw ps (pid, publish_time) ty expo (- 3)" and "expo < 2"
  shows "g_engaged_timestamp (generate_engagement i (pid, publish_time) ty uid expo (- 3))
           < publish_time"
proof -
  from assms have e: "0 \<le> expo"
    by (simp add: possible_draw_def)
  have m: "min expo MAX_LAG_HOURS = expo"
    using assms(2) by (simp add: MAX_LAG_HOURS_def)
  have "\<lfloor>expo\<rfloor> < 2"
    using assms(2) by (simp add: floor_less_iff)
  then have "\<lfloor>expo\<rfloor> + 1 \<le> 2"
    by simp
  then have "(\<lfloor>expo\<rfloor> + 1) * 3600000000 \<le> 2 * 3600000000"
    by (rule mult_right_mono) simp
  then have "(\<lfloor>expo\<rfloor> + 1) * 3600000000 + 1 \<le> 2 * 3600000000 + 1"
    by (rule add_right_mono)
  with timedelta_hours_bounds(2) [OF e] have "timedelta_hours expo \<le> 2 * 3600000000 + 1"
    by (blast intro: order_trans)
  then show ?thesis
    using timedelta_hours_of_int [of "- 3"]
    by (simp add: generate_engagement_def Let_def m)
qed

text \<open>
  C8: a generated engagement should be dated at or after the publish time of its post, at most
  720 hours later. The second holds, the first does not: the hour adjustment of -3 to 3
  hours is added to a lag that may be shorter. With a lag of 1 hour and an adjustment of -3
  the engagement is dated 2 hours before the publish time.
\<close>

theorem engaged_time_before_publish_time:
  "possible_draw [(104, sample_now)] (104, sample_now) ''view'' 1 (- 3)
   \<and> g_engaged_timestamp (generate_engagement 2006 (104, sample_now) ''view'' None 1 (- 3))
       = sample_now - 2 * 3600000000
   \<and> sample_now - 2 * 3600000000 < sample_now"
  by code_simp

end
